theory Spec2Isabelle
  imports Main "HOL-Library.Char_ord" "HOL-Library.List_Lexorder"
begin

section \<open>Python strings\<close>

text \<open>
  A Python \<open>str\<close> is a sequence of code points.  It is modelled as a \<open>string\<close> whose
  characters are the code points U+0000 to U+00FF, one \<open>char\<close> per code point, so that
  \<open>length\<close> and positions are Python's.  The character classes below are those of
  CPython for these code points.
\<close>

text \<open>\<open>str.isspace\<close>, which is also the class \<open>\s\<close> of \<open>re\<close> and what \<open>str.strip\<close> removes.\<close>

definition is_space :: "char \<Rightarrow> bool" where
  "is_space c = ((CHR 0x09 \<le> c \<and> c \<le> CHR 0x0D) \<or> (CHR 0x1C \<le> c \<and> c \<le> CHR 0x20) \<or>
     c = CHR 0x85 \<or> c = CHR 0xA0)"

definition is_digit :: "char \<Rightarrow> bool" where
  "is_digit c = (CHR ''0'' \<le> c \<and> c \<le> CHR ''9'')"

definition is_lower :: "char \<Rightarrow> bool" where
  "is_lower c = (CHR ''a'' \<le> c \<and> c \<le> CHR ''z'')"

definition is_upper :: "char \<Rightarrow> bool" where
  "is_upper c = (CHR ''A'' \<le> c \<and> c \<le> CHR ''Z'')"

definition is_alpha :: "char \<Rightarrow> bool" where
  "is_alpha c = (is_lower c \<or> is_upper c)"

text \<open>The class \<open>\w\<close> of \<open>re\<close> on \<open>str\<close> patterns; it decides \<open>\b\<close>.\<close>

definition is_word :: "char \<Rightarrow> bool" where
  "is_word c = (is_digit c \<or> is_alpha c \<or> c = CHR ''_'' \<or>
     c = CHR 0xAA \<or> c = CHR 0xB2 \<or> c = CHR 0xB3 \<or> c = CHR 0xB5 \<or> c = CHR 0xB9 \<or>
     c = CHR 0xBA \<or> (CHR 0xBC \<le> c \<and> c \<le> CHR 0xBE) \<or> (CHR 0xC0 \<le> c \<and> c \<le> CHR 0xD6) \<or>
     (CHR 0xD8 \<le> c \<and> c \<le> CHR 0xF6) \<or> CHR 0xF8 \<le> c)"

text \<open>\<open>str.lower\<close>: A to Z, and the capital letters U+00C0 to U+00DE but U+00D7.\<close>

definition lower_char :: "char \<Rightarrow> char" where
  "lower_char c =
     (if is_upper c \<or> (CHR 0xC0 \<le> c \<and> c \<le> CHR 0xDE \<and> c \<noteq> CHR 0xD7)
      then char_of (of_char c + (32::nat)) else c)"

definition py_lower :: "string \<Rightarrow> string" where
  "py_lower s = map lower_char s"

definition py_strip :: "string \<Rightarrow> string" where
  "py_strip s = rev (dropWhile is_space (rev (dropWhile is_space s)))"

text \<open>\<open>key in line\<close> on strings: \<open>key\<close> occurs as a contiguous run of \<open>line\<close>.\<close>

fun starts_with :: "string \<Rightarrow> string \<Rightarrow> bool" where
  "starts_with [] s = True"
| "starts_with (p # ps) [] = False"
| "starts_with (p # ps) (c # cs) = (p = c \<and> starts_with ps cs)"

fun contains :: "string \<Rightarrow> string \<Rightarrow> bool" where
  "contains key [] = (key = [])"
| "contains key (c # cs) = (starts_with key (c # cs) \<or> contains key cs)"

definition ends_with :: "string \<Rightarrow> string \<Rightarrow> bool" where
  "ends_with suffix s = starts_with (rev suffix) (rev s)"

text \<open>\<open>s.split(sep)\<close> for a one-character separator: one more part than separators.\<close>

fun split_on :: "char \<Rightarrow> string \<Rightarrow> string list" where
  "split_on sep [] = [[]]"
| "split_on sep (c # cs) =
     (if c = sep then [] # split_on sep cs
      else (case split_on sep cs of p # ps \<Rightarrow> (c # p) # ps | [] \<Rightarrow> [[c]]))"

text \<open>\<open>sep.join(parts)\<close>.\<close>

fun join :: "string \<Rightarrow> string list \<Rightarrow> string" where
  "join sep [] = []"
| "join sep [p] = p"
| "join sep (p # ps) = p @ sep @ join sep ps"

text \<open>\<open>s.count(sub)\<close> for a non-empty \<open>sub\<close>: occurrences that do not overlap, left to right.\<close>

fun count_from :: "string \<Rightarrow> string \<Rightarrow> nat \<Rightarrow> nat" where
  "count_from sub [] skip = 0"
| "count_from sub (c # cs) skip =
     (if skip = 0 \<and> starts_with sub (c # cs) then Suc (count_from sub cs (length sub - 1))
      else count_from sub cs (skip - 1))"

definition py_count :: "string \<Rightarrow> string \<Rightarrow> nat" where
  "py_count s sub = count_from sub s 0"

text \<open>\<open>s.rsplit(sep, 1)[0]\<close>: what stands before the last separator, or all of \<open>s\<close>.\<close>

definition rsplit1_head :: "char \<Rightarrow> string \<Rightarrow> string" where
  "rsplit1_head sep s =
     (if sep \<in> set s then rev (tl (dropWhile (\<lambda>c. c \<noteq> sep) (rev s))) else s)"

text \<open>\<open>str(n)\<close> of a natural number, as the f-strings print it.\<close>

function str_nat :: "nat \<Rightarrow> string" where
  "str_nat n = (if n < 10 then [''0123456789'' ! n] else str_nat (n div 10) @ [''0123456789'' ! (n mod 10)])"
  by pat_completeness auto
termination
  by (relation "measure id") auto

text \<open>The value of a run of decimal digits, as \<open>int\<close> reads it.\<close>

definition nat_of_digits :: "string \<Rightarrow> nat" where
  "nat_of_digits s = foldl (\<lambda>n c. 10 * n + (of_char c - 48)) 0 s"

section \<open>Regular expressions as \<open>re\<close> runs them\<close>

text \<open>
  The patterns of the scripts are written in this abstract syntax.  \<open>Cls\<close> is one
  character of a class, \<open>Star\<close> the greedy \<open>*\<close>, \<open>Grp\<close> a capturing group, \<open>WordB\<close>
  is \<open>\b\<close> and \<open>NegLook\<close> is \<open>(?!...)\<close>.
\<close>

datatype rx =
    Cls "char \<Rightarrow> bool"
  | Eps
  | Seq rx rx
  | Alt rx rx
  | Star rx
  | Grp nat rx
  | WordB
  | NegLook rx

type_synonym caps = "(nat \<times> string) list"

definition word_boundary :: "string \<Rightarrow> nat \<Rightarrow> bool" where
  "word_boundary s i =
     ((0 < i \<and> i \<le> length s \<and> is_word (s ! (i - 1))) \<noteq> (i < length s \<and> is_word (s ! i)))"

text \<open>
  \<open>ms r s i c\<close> lists every way for \<open>r\<close> to match \<open>s\<close> from position \<open>i\<close> with the
  groups \<open>c\<close> captured so far: the end position and the groups of each, in the order in
  which the backtracking matcher of \<open>re\<close> tries them (the left alternative first, the
  longest repetition first).  The head of the list is the match \<open>re\<close> reports.  A
  repetition goes on only after an iteration that consumed a character; every starred
  expression of these scripts consumes one.
\<close>

function ms :: "rx \<Rightarrow> string \<Rightarrow> nat \<Rightarrow> caps \<Rightarrow> (nat \<times> caps) list" where
  "ms (Cls p) s i c = (if i < length s \<and> p (s ! i) then [(Suc i, c)] else [])"
| "ms Eps s i c = [(i, c)]"
| "ms (Seq a b) s i c = concat (map (\<lambda>(j, c'). ms b s j c') (ms a s i c))"
| "ms (Alt a b) s i c = ms a s i c @ ms b s i c"
| "ms (Star r) s i c =
     concat (map (\<lambda>(j, c'). if i < j \<and> j \<le> length s then ms (Star r) s j c' else [])
                 (ms r s i c)) @ [(i, c)]"
| "ms (Grp n r) s i c = map (\<lambda>(j, c'). (j, (n, take (j - i) (drop i s)) # c')) (ms r s i c)"
| "ms WordB s i c = (if word_boundary s i then [(i, c)] else [])"
| "ms (NegLook r) s i c = (if ms r s i c = [] then [(i, c)] else [])"
  by pat_completeness auto
termination
  by (relation "measures [\<lambda>(r, s, i, c). size r, \<lambda>(r, s, i, c). length s - i]") auto

text \<open>Derived forms: a literal character, a literal string, \<open>+\<close>, \<open>?\<close>, sequences, alternatives.\<close>

definition Lit :: "char \<Rightarrow> rx" where
  "Lit x = Cls (\<lambda>c. c = x)"

definition NotC :: "char \<Rightarrow> rx" where
  "NotC x = Cls (\<lambda>c. c \<noteq> x)"

definition OneOf :: "string \<Rightarrow> rx" where
  "OneOf xs = Cls (\<lambda>c. c \<in> set xs)"

fun Str :: "string \<Rightarrow> rx" where
  "Str [] = Eps"
| "Str (x # xs) = Seq (Lit x) (Str xs)"

definition Rep1 :: "rx \<Rightarrow> rx" where
  "Rep1 r = Seq r (Star r)"

definition Opt :: "rx \<Rightarrow> rx" where
  "Opt r = Alt r Eps"

fun Seqs :: "rx list \<Rightarrow> rx" where
  "Seqs [] = Eps"
| "Seqs [r] = r"
| "Seqs (r # rs) = Seq r (Seqs rs)"

fun Alts :: "rx list \<Rightarrow> rx" where
  "Alts [] = Cls (\<lambda>c. False)"
| "Alts [r] = r"
| "Alts (r # rs) = Alt r (Alts rs)"

text \<open>\<open>\s*\<close>, and \<open>.\<close> (any character but a newline).\<close>

definition ws :: rx where
  "ws = Star (Cls is_space)"

definition Dot :: rx where
  "Dot = NotC (CHR 0x0A)"

text \<open>
  \<open>re.IGNORECASE\<close> on a literal or a class of ASCII letters: both cases match.  For
  \<open>str\<close> patterns \<open>re\<close> also folds U+017F and U+212A to s and k; they lie outside the
  code points modelled.
\<close>

definition LitI :: "char \<Rightarrow> rx" where
  "LitI x = Cls (\<lambda>c. lower_char c = lower_char x)"

fun StrI :: "string \<Rightarrow> rx" where
  "StrI [] = Eps"
| "StrI (x # xs) = Seq (LitI x) (StrI xs)"

text \<open>
  The first match at or after the start positions \<open>ks\<close>, as \<open>re.search\<close> scans:
  its start, its end and its groups.
\<close>

fun first_match :: "rx \<Rightarrow> string \<Rightarrow> nat list \<Rightarrow> (nat \<times> nat \<times> caps) option" where
  "first_match r s [] = None"
| "first_match r s (k # ks) =
     (case ms r s k [] of [] \<Rightarrow> first_match r s ks | (j, c) # _ \<Rightarrow> Some (k, j, c))"

definition re_search :: "rx \<Rightarrow> string \<Rightarrow> bool" where
  "re_search r s = (first_match r s [0 ..< Suc (length s)] \<noteq> None)"

text \<open>\<open>re.fullmatch\<close>: some way of matching from 0 ends at the end of the string.\<close>

definition re_fullmatch :: "rx \<Rightarrow> string \<Rightarrow> bool" where
  "re_fullmatch r s = list_ex (\<lambda>(j, c). j = length s) (ms r s 0 [])"

text \<open>
  \<open>re.finditer\<close>: the matches that do not overlap, left to right; the scan goes on
  where the last match ended.  No pattern that these scripts give to \<open>findall\<close>,
  \<open>finditer\<close> or \<open>sub\<close> matches the empty string, so the next start is past the
  last one.
\<close>

fun scan :: "rx \<Rightarrow> string \<Rightarrow> nat list \<Rightarrow> nat \<Rightarrow> (nat \<times> nat \<times> caps) list" where
  "scan r s [] pos = []"
| "scan r s (k # ks) pos =
     (if k < pos then scan r s ks pos
      else (case ms r s k [] of
              [] \<Rightarrow> scan r s ks pos
            | (j, c) # _ \<Rightarrow> (k, j, c) # scan r s ks (max j (Suc k))))"

definition re_finditer :: "rx \<Rightarrow> string \<Rightarrow> (nat \<times> nat \<times> caps) list" where
  "re_finditer r s = scan r s [0 ..< Suc (length s)] 0"

text \<open>A group as \<open>findall\<close> returns it: the empty string when the group took no part.\<close>

definition grp :: "nat \<Rightarrow> caps \<Rightarrow> string" where
  "grp n c = (case map_of c n of None \<Rightarrow> [] | Some g \<Rightarrow> g)"

text \<open>\<open>re.findall\<close> for a pattern with one group, with two groups, and with none.\<close>

definition findall1 :: "rx \<Rightarrow> string \<Rightarrow> string list" where
  "findall1 r s = map (\<lambda>(k, j, c). grp 1 c) (re_finditer r s)"

definition findall2 :: "rx \<Rightarrow> string \<Rightarrow> (string \<times> string) list" where
  "findall2 r s = map (\<lambda>(k, j, c). (grp 1 c, grp 2 c)) (re_finditer r s)"

definition findall0 :: "rx \<Rightarrow> string \<Rightarrow> string list" where
  "findall0 r s = map (\<lambda>(k, j, c). take (j - k) (drop k s)) (re_finditer r s)"

text \<open>\<open>re.sub\<close>: the text between the matches, with each match replaced by \<open>repl\<close> of its groups.\<close>

fun sub_build :: "(caps \<Rightarrow> string) \<Rightarrow> string \<Rightarrow> nat \<Rightarrow> (nat \<times> nat \<times> caps) list \<Rightarrow> string" where
  "sub_build repl s prev [] = drop prev s"
| "sub_build repl s prev ((k, j, c) # rest) =
     take (k - prev) (drop prev s) @ repl c @ sub_build repl s j rest"

definition re_sub :: "rx \<Rightarrow> (caps \<Rightarrow> string) \<Rightarrow> string \<Rightarrow> string" where
  "re_sub r repl s = sub_build repl s 0 (re_finditer r s)"

section \<open>Azure Pipelines validator: \<open>_validate_structure\<close>\<close>

text \<open>
  \<open>ValidationError\<close> of azure-pipelines-validator/scripts/validate_syntax.py.
  Line numbers come from \<open>enumerate(lines, 1)\<close> or are the constants 0 and 1, so they
  are natural numbers.
\<close>

record ValidationError =
  ve_severity :: string
  ve_line :: nat
  ve_message :: string
  ve_rule :: string

text \<open>
  The fields of \<open>AzurePipelinesValidator\<close> that \<open>_validate_structure\<close> reads or writes.
  \<open>config\<close> is the root mapping of the parsed YAML document; the checks only ask which
  keys it has, so the type of its values is left open.
\<close>

record 'v AzurePipelinesValidator =
  errors :: "ValidationError list"
  config :: "string \<rightharpoonup> 'v"
  line_map :: "string \<rightharpoonup> nat"
  raw_lines :: "string list"

text \<open>The loop of \<open>_get_line\<close> over \<open>enumerate(self.raw_lines, 1)\<close>.\<close>

fun search_lines :: "string \<Rightarrow> string list \<Rightarrow> nat \<Rightarrow> nat" where
  "search_lines key [] line_num = 0"
| "search_lines key (line # rest) line_num =
     (if contains key line then line_num else search_lines key rest (Suc line_num))"

definition get_line :: "'v AzurePipelinesValidator \<Rightarrow> string \<Rightarrow> nat" where
  "get_line self key =
     (case line_map self key of
        Some n \<Rightarrow> n
      | None \<Rightarrow> search_lines key (raw_lines self) 1)"

definition append_error ::
  "ValidationError \<Rightarrow> 'v AzurePipelinesValidator \<Rightarrow> 'v AzurePipelinesValidator" where
  "append_error e self = self\<lparr>errors := errors self @ [e]\<rparr>"

definition validate_structure :: "'v AzurePipelinesValidator \<Rightarrow> 'v AzurePipelinesValidator" where
  "validate_structure self =
     (let has_stages = (''stages'' \<in> dom (config self));
          has_jobs = (''jobs'' \<in> dom (config self));
          has_steps = (''steps'' \<in> dom (config self));
          has_extends = (''extends'' \<in> dom (config self))
      in if has_extends then self
         else
           let s1 = (if \<not> (has_stages \<or> has_jobs \<or> has_steps)
                     then append_error
                            \<lparr>ve_severity = ''error'', ve_line = 1,
                             ve_message = ''Pipeline must define stages, jobs, or steps'',
                             ve_rule = ''missing-pipeline-content''\<rparr> self
                     else self);
               s2 = (if has_stages \<and> has_jobs
                     then append_error
                            \<lparr>ve_severity = ''error'', ve_line = get_line s1 ''jobs'',
                             ve_message = ''Cannot define both stages and jobs at root level'',
                             ve_rule = ''invalid-hierarchy''\<rparr> s1
                     else s1);
               s3 = (if has_stages \<and> has_steps
                     then append_error
                            \<lparr>ve_severity = ''error'', ve_line = get_line s2 ''steps'',
                             ve_message = ''Cannot define both stages and steps at root level'',
                             ve_rule = ''invalid-hierarchy''\<rparr> s2
                     else s2)
           in if has_jobs \<and> has_steps
              then append_error
                     \<lparr>ve_severity = ''error'', ve_line = get_line s3 ''steps'',
                      ve_message = ''Cannot define both jobs and steps at root level'',
                      ve_rule = ''invalid-hierarchy''\<rparr> s3
              else s3)"

text \<open>A validator as \<open>__init__\<close> and \<open>_load_yaml\<close> leave it, for a document with the given root.\<close>

definition loaded :: "(string \<rightharpoonup> 'v) \<Rightarrow> (string \<rightharpoonup> nat) \<Rightarrow> string list \<Rightarrow> 'v AzurePipelinesValidator" where
  "loaded cfg lm ls = \<lparr>errors = [], config = cfg, line_map = lm, raw_lines = ls\<rparr>"

section \<open>PromQL syntax validator (promql-validator/scripts/validate_syntax.py)\<close>

text \<open>
  A finding is the dictionary the checks append: \<open>type\<close>, \<open>message\<close> and \<open>severity\<close>
  always, \<open>position\<close>, \<open>hint\<close> or \<open>recommendation\<close> for some checks.
\<close>

record finding =
  ftype :: string
  message :: string
  severity :: string
  position :: "nat option"
  hint :: "string option"
  recommendation :: "string option"

definition new_finding :: "string \<Rightarrow> string \<Rightarrow> string \<Rightarrow> finding" where
  "new_finding t m sev =
     \<lparr>ftype = t, message = m, severity = sev, position = None, hint = None,
      recommendation = None\<rparr>"

text \<open>
  \<open>FUNCTIONS\<close> and \<open>NON_FUNCTION_KEYWORDS\<close> are Python sets.  Membership is membership in
  the set of these lists; the order in which a \<open>for\<close> loop goes through a set of strings
  is not the order of the source text (it follows the hashes, which CPython salts anew
  for each process), so the validator takes that order as a parameter.
\<close>

definition FUNCTIONS :: "string list" where
  "FUNCTIONS =
    [''sum'', ''min'', ''max'', ''avg'', ''group'', ''stddev'', ''stdvar'', ''count'',
     ''count_values'', ''bottomk'', ''topk'', ''quantile'', ''limitk'', ''limit_ratio'',
     ''rate'', ''irate'', ''increase'', ''delta'', ''idelta'', ''deriv'', ''timestamp'',
     ''time'', ''minute'', ''hour'', ''day_of_month'', ''day_of_week'', ''days_in_month'',
     ''month'', ''year'', ''abs'', ''ceil'', ''floor'', ''round'', ''sqrt'', ''exp'',
     ''ln'', ''log2'', ''log10'', ''sin'', ''cos'', ''tan'', ''asin'', ''acos'', ''atan'',
     ''sinh'', ''cosh'', ''tanh'', ''asinh'', ''acosh'', ''atanh'', ''deg'', ''rad'',
     ''sgn'', ''clamp'', ''clamp_max'', ''clamp_min'', ''histogram_quantile'',
     ''histogram_count'', ''histogram_sum'', ''histogram_fraction'', ''histogram_avg'',
     ''histogram_stddev'', ''histogram_stdvar'', ''label_replace'', ''label_join'',
     ''changes'', ''resets'', ''avg_over_time'', ''min_over_time'', ''max_over_time'',
     ''sum_over_time'', ''count_over_time'', ''quantile_over_time'', ''stddev_over_time'',
     ''stdvar_over_time'', ''last_over_time'', ''present_over_time'', ''mad_over_time'',
     ''predict_linear'', ''holt_winters'', ''double_exponential_smoothing'', ''sort'',
     ''sort_desc'', ''sort_by_label'', ''sort_by_label_desc'', ''absent'',
     ''absent_over_time'', ''scalar'', ''vector'', ''info'', ''pi'']"

definition NON_FUNCTION_KEYWORDS :: "string list" where
  "NON_FUNCTION_KEYWORDS =
    [''by'', ''without'', ''on'', ''ignoring'', ''group_left'', ''group_right'', ''bool'']"




text \<open>The character classes of the patterns.\<close>

definition metric_start :: "char \<Rightarrow> bool" where
  "metric_start c = (is_alpha c \<or> c = CHR ''_'' \<or> c = CHR '':'')"

definition metric_char :: "char \<Rightarrow> bool" where
  "metric_char c = (is_alpha c \<or> is_digit c \<or> c = CHR ''_'' \<or> c = CHR '':'')"

definition label_start :: "char \<Rightarrow> bool" where
  "label_start c = (is_alpha c \<or> c = CHR ''_'')"

definition label_char :: "char \<Rightarrow> bool" where
  "label_char c = (is_alpha c \<or> is_digit c \<or> c = CHR ''_'')"

text \<open>\<open>METRIC_NAME_PATTERN = [a-zA-Z_:][a-zA-Z0-9_:]*\<close>\<close>

definition METRIC_NAME_PATTERN :: rx where
  "METRIC_NAME_PATTERN = Seq (Cls metric_start) (Star (Cls metric_char))"

text \<open>\<open>DURATION_PATTERN = \d+(?:ms|s|m|h|d|w|y)\<close>\<close>

definition DURATION_PATTERN :: rx where
  "DURATION_PATTERN =
     Seq (Rep1 (Cls is_digit))
         (Alts [Str ''ms'', Str ''s'', Str ''m'', Str ''h'', Str ''d'', Str ''w'', Str ''y''])"

record PromQLSyntaxValidator =
  v_query :: string
  v_errors :: "finding list"
  v_warnings :: "finding list"

definition new_validator :: "string \<Rightarrow> PromQLSyntaxValidator" where
  "new_validator query = \<lparr>v_query = py_strip query, v_errors = [], v_warnings = []\<rparr>"

definition add_error :: "finding \<Rightarrow> PromQLSyntaxValidator \<Rightarrow> PromQLSyntaxValidator" where
  "add_error f self = self\<lparr>v_errors := v_errors self @ [f]\<rparr>"

definition add_warning :: "finding \<Rightarrow> PromQLSyntaxValidator \<Rightarrow> PromQLSyntaxValidator" where
  "add_warning f self = self\<lparr>v_warnings := v_warnings self @ [f]\<rparr>"

subsection \<open>\<open>_check_balanced_delimiters\<close>\<close>

text \<open>
  The local variables of the loop, with the errors found so far.  The three stacks are
  Python lists: \<open>append\<close> adds at the end, \<open>pop\<close> removes the last element and
  \<open>brackets[-1]\<close> is the last element.
\<close>

record delim_state =
  brackets :: "nat list"
  braces :: "nat list"
  parens :: "nat list"
  in_string :: bool
  escape_next :: bool
  found :: "finding list"

definition delim_finding :: "string \<Rightarrow> string \<Rightarrow> nat \<Rightarrow> finding" where
  "delim_finding t what i =
     \<lparr>ftype = t, message = what @ '' at position '' @ str_nat i, severity = ''error'',
      position = Some i, hint = None, recommendation = None\<rparr>"

definition delim_step :: "delim_state \<Rightarrow> nat \<times> char \<Rightarrow> delim_state" where
  "delim_step st ic =
     (case ic of (i, char) \<Rightarrow>
        if escape_next st then st\<lparr>escape_next := False\<rparr>
        else if char = CHR 0x5C then st\<lparr>escape_next := True\<rparr>
        else if char = CHR 0x22 then st\<lparr>in_string := \<not> in_string st\<rparr>
        else if in_string st then st
        else if char = CHR ''['' then st\<lparr>brackets := brackets st @ [i]\<rparr>
        else if char = CHR '']'' then
          (if brackets st = []
           then st\<lparr>found := found st @
                  [delim_finding ''unmatched_bracket'' ''Unmatched closing bracket'' i]\<rparr>
           else st\<lparr>brackets := butlast (brackets st)\<rparr>)
        else if char = CHR ''{'' then st\<lparr>braces := braces st @ [i]\<rparr>
        else if char = CHR ''}'' then
          (if braces st = []
           then st\<lparr>found := found st @
                  [delim_finding ''unmatched_brace'' ''Unmatched closing brace'' i]\<rparr>
           else st\<lparr>braces := butlast (braces st)\<rparr>)
        else if char = CHR ''('' then st\<lparr>parens := parens st @ [i]\<rparr>
        else if char = CHR '')'' then
          (if parens st = []
           then st\<lparr>found := found st @
                  [delim_finding ''unmatched_paren'' ''Unmatched closing parenthesis'' i]\<rparr>
           else st\<lparr>parens := butlast (parens st)\<rparr>)
        else st)"

definition delim_loop :: "string \<Rightarrow> finding list \<Rightarrow> delim_state" where
  "delim_loop query errs =
     foldl delim_step
       \<lparr>brackets = [], braces = [], parens = [], in_string = False, escape_next = False,
        found = errs\<rparr>
       (enumerate 0 query)"

definition check_balanced_delimiters :: "PromQLSyntaxValidator \<Rightarrow> PromQLSyntaxValidator" where
  "check_balanced_delimiters self =
     (let st = delim_loop (v_query self) (v_errors self);
          e1 = (if in_string st
                then found st @ [new_finding ''unclosed_string'' ''Unclosed string literal'' ''error'']
                else found st);
          e2 = (if brackets st \<noteq> []
                then e1 @ [delim_finding ''unclosed_bracket'' ''Unclosed bracket'' (last (brackets st))]
                else e1);
          e3 = (if braces st \<noteq> []
                then e2 @ [delim_finding ''unclosed_brace'' ''Unclosed brace'' (last (braces st))]
                else e2);
          e4 = (if parens st \<noteq> []
                then e3 @ [delim_finding ''unclosed_paren'' ''Unclosed parenthesis'' (last (parens st))]
                else e3)
      in self\<lparr>v_errors := e4\<rparr>)"

subsection \<open>\<open>_check_metric_selectors\<close> and \<open>_check_utf8_metric_syntax\<close>\<close>

text \<open>\<open>"(?:[^"\\]|\\.)*"\<close>\<close>

definition string_literal_pattern :: rx where
  "string_literal_pattern =
     Seqs [Lit (CHR 0x22),
           Star (Alt (Cls (\<lambda>c. c \<noteq> CHR 0x22 \<and> c \<noteq> CHR 0x5C)) (Seq (Lit (CHR 0x5C)) Dot)),
           Lit (CHR 0x22)]"

text \<open>\<open>\{\s*\}\<close>\<close>

definition empty_matcher_pattern :: rx where
  "empty_matcher_pattern = Seqs [Lit CHR ''{'', ws, Lit CHR ''}'']"

text \<open>\<open>utf8_selector_pattern = \{\s*"([^"]+)"\<close>\<close>

definition utf8_selector_pattern :: rx where
  "utf8_selector_pattern =
     Seqs [Lit CHR ''{'', ws, Lit (CHR 0x22), Grp 1 (Rep1 (NotC (CHR 0x22))), Lit (CHR 0x22)]"

text \<open>\<open>wrong_utf8_pattern = \{\s*([a-zA-Z_][a-zA-Z0-9_.]*\.[a-zA-Z0-9_.]+)\s*=\<close>\<close>

definition wrong_utf8_pattern :: rx where
  "wrong_utf8_pattern =
     Seqs [Lit CHR ''{'', ws,
           Grp 1 (Seqs [Cls label_start,
                        Star (Cls (\<lambda>c. label_char c \<or> c = CHR ''.'')),
                        Lit CHR ''.'',
                        Rep1 (Cls (\<lambda>c. label_char c \<or> c = CHR ''.''))]),
           ws, Lit CHR ''='']"

definition utf8_step :: "PromQLSyntaxValidator \<Rightarrow> string \<Rightarrow> PromQLSyntaxValidator" where
  "utf8_step self metric_name =
     (if re_fullmatch METRIC_NAME_PATTERN metric_name
      then add_warning
             (new_finding ''utf8_metric_unnecessary_quoting''
                (''Metric name \"'' @ metric_name @
                 ''\" uses UTF-8 quoting but is valid in classic format'')
                ''info'') self
      else if py_strip metric_name = []
      then add_error
             (new_finding ''invalid_utf8_metric''
                ''Empty quoted metric name in UTF-8 selector'' ''error'') self
      else if CHR 0x00 \<in> set metric_name
      then add_error
             (new_finding ''invalid_utf8_metric''
                (''Metric name \"'' @ metric_name @ ''\" contains null character'')
                ''error'') self
      else self)"

definition wrong_utf8_step :: "PromQLSyntaxValidator \<Rightarrow> string \<Rightarrow> PromQLSyntaxValidator" where
  "wrong_utf8_step self suspicious_name =
     (if CHR ''.'' \<in> set suspicious_name
      then add_warning
             ((new_finding ''possible_utf8_syntax_error''
                 (''Label name \"'' @ suspicious_name @
                  ''\" contains dots - did you mean to use UTF-8 metric syntax?'')
                 ''warning'')
              \<lparr>hint := Some (''For UTF-8 metric names use: {\"'' @ suspicious_name @ ''\"}'')\<rparr>)
             self
      else self)"

definition check_utf8_metric_syntax :: "PromQLSyntaxValidator \<Rightarrow> PromQLSyntaxValidator" where
  "check_utf8_metric_syntax self =
     (let s1 = foldl utf8_step self (findall1 utf8_selector_pattern (v_query self))
      in foldl wrong_utf8_step s1 (findall1 wrong_utf8_pattern (v_query self)))"

definition check_metric_selectors :: "PromQLSyntaxValidator \<Rightarrow> PromQLSyntaxValidator" where
  "check_metric_selectors self =
     (let query_no_strings = re_sub string_literal_pattern (\<lambda>c. [CHR 0x22, CHR 0x22]) (v_query self);
          s1 = (if re_search empty_matcher_pattern query_no_strings
                then add_warning
                       (new_finding ''empty_label_matcher''
                          ''Empty label matcher {} found - this may match many time series''
                          ''warning'') self
                else self)
      in check_utf8_metric_syntax s1)"

subsection \<open>\<open>_check_time_ranges\<close>\<close>

text \<open>\<open>range_pattern = \[([^\]]+)\]\<close>\<close>

definition range_pattern :: rx where
  "range_pattern = Seqs [Lit CHR ''['', Grp 1 (Rep1 (NotC CHR '']'')), Lit CHR '']'']"

text \<open>
  The body of the loop over the spans.  \<open>parts[0]\<close> and \<open>parts[1]\<close> exist, since
  \<open>split\<close> of a string with a colon gives at least two parts.
\<close>

definition time_range_step :: "PromQLSyntaxValidator \<Rightarrow> string \<Rightarrow> PromQLSyntaxValidator" where
  "time_range_step self range_str0 =
     (let range_str = py_strip range_str0
      in if CHR '':'' \<in> set range_str then
           (let parts = split_on CHR '':'' range_str
            in if length parts > 2
               then add_error
                      (new_finding ''invalid_subquery''
                         (''Invalid subquery syntax: ['' @ range_str @ '']'') ''error'') self
               else
                 (let range_part = py_strip (hd parts);
                      resolution_part = (if length parts > 1 then py_strip (parts ! 1) else []);
                      s1 = (if range_part \<noteq> [] \<and> \<not> re_fullmatch DURATION_PATTERN range_part
                            then add_error
                                   (new_finding ''invalid_duration''
                                      (''Invalid duration in subquery range: '' @ range_part)
                                      ''error'') self
                            else self)
                  in if resolution_part \<noteq> [] \<and> \<not> re_fullmatch DURATION_PATTERN resolution_part
                     then add_error
                            (new_finding ''invalid_duration''
                               (''Invalid duration in subquery resolution: '' @ resolution_part)
                               ''error'') s1
                     else s1))
         else if \<not> re_fullmatch DURATION_PATTERN range_str
         then add_error
                (new_finding ''invalid_duration''
                   (''Invalid duration syntax: '' @ range_str @
                    ''. Expected format like 5m, 1h, 7d'')
                   ''error'') self
         else self)"

definition check_time_ranges :: "PromQLSyntaxValidator \<Rightarrow> PromQLSyntaxValidator" where
  "check_time_ranges self = foldl time_range_step self (findall1 range_pattern (v_query self))"

subsection \<open>\<open>_levenshtein_distance\<close> and \<open>_find_close_matches\<close>\<close>

text \<open>
  The inner loop over \<open>enumerate(s2)\<close> and the outer loop over \<open>enumerate(s1)\<close>.  The
  rows are read by index: \<open>previous_row\<close> has one element more than \<open>s2\<close> has
  characters, and \<open>current_row\<close> has \<open>j + 1\<close> elements when index \<open>j\<close> is read.
\<close>

fun lev_inner :: "char \<Rightarrow> nat list \<Rightarrow> nat list \<Rightarrow> (nat \<times> char) list \<Rightarrow> nat list" where
  "lev_inner c1 previous_row current_row [] = current_row"
| "lev_inner c1 previous_row current_row ((j, c2) # rest) =
     (let insertions = previous_row ! (j + 1) + 1;
          deletions = current_row ! j + 1;
          substitutions = previous_row ! j + (if c1 \<noteq> c2 then 1 else 0)
      in lev_inner c1 previous_row
           (current_row @ [min insertions (min deletions substitutions)]) rest)"

fun lev_outer :: "string \<Rightarrow> nat list \<Rightarrow> (nat \<times> char) list \<Rightarrow> nat list" where
  "lev_outer s2 previous_row [] = previous_row"
| "lev_outer s2 previous_row ((i, c1) # rest) =
     lev_outer s2 (lev_inner c1 previous_row [i + 1] (enumerate 0 s2)) rest"

definition lev_ordered :: "string \<Rightarrow> string \<Rightarrow> nat" where
  "lev_ordered s1 s2 =
     (if length s2 = 0 then length s1
      else last (lev_outer s2 [0 ..< length s2 + 1] (enumerate 0 s1)))"

definition levenshtein_distance :: "string \<Rightarrow> string \<Rightarrow> nat" where
  "levenshtein_distance s1 s2 =
     (if length s1 < length s2 then lev_ordered s2 s1 else lev_ordered s1 s2)"

definition abs_diff :: "nat \<Rightarrow> nat \<Rightarrow> nat" where
  "abs_diff a b = (if a < b then b - a else a - b)"

definition find_close_matches :: "string \<Rightarrow> string list \<Rightarrow> nat \<Rightarrow> string list" where
  "find_close_matches word candidates max_distance =
     take 3 (filter (\<lambda>candidate. \<not> abs_diff (length word) (length candidate) > max_distance \<and>
                                  levenshtein_distance word candidate \<le> max_distance)
                    candidates)"

subsection \<open>\<open>_check_function_syntax\<close>\<close>

text \<open>\<open>func_pattern = ([a-z_][a-z0-9_]*)\s*\(\<close> with \<open>re.IGNORECASE\<close>\<close>

definition func_pattern :: rx where
  "func_pattern = Seqs [Grp 1 (Seq (Cls label_start) (Star (Cls label_char))), ws, Lit CHR ''('']"

definition function_step ::
  "string list \<Rightarrow> PromQLSyntaxValidator \<Rightarrow> string \<Rightarrow> PromQLSyntaxValidator" where
  "function_step order self func =
     (let func_lower = py_lower func
      in if func_lower \<in> set NON_FUNCTION_KEYWORDS then self
         else if func_lower \<notin> set FUNCTIONS then
           (let close_matches = find_close_matches func_lower order 2
            in if close_matches \<noteq> []
               then add_error
                      (new_finding ''unknown_function''
                         (''Unknown function: '' @ func @ ''. Did you mean: '' @
                          join '', '' close_matches @ ''?'')
                         ''error'') self
               else add_error
                      (new_finding ''unknown_function'' (''Unknown function: '' @ func)
                         ''error'') self)
         else self)"

definition check_function_syntax ::
  "string list \<Rightarrow> PromQLSyntaxValidator \<Rightarrow> PromQLSyntaxValidator" where
  "check_function_syntax order self =
     foldl (function_step order) self (findall1 func_pattern (v_query self))"

subsection \<open>\<open>_check_operators\<close> and \<open>_check_common_typos\<close>\<close>

text \<open>\<open>[+\-*/]{2,}\<close>\<close>

definition double_operator_pattern :: rx where
  "double_operator_pattern = Seqs [OneOf ''+-*/'', OneOf ''+-*/'', Star (OneOf ''+-*/'')]"

definition check_operators :: "PromQLSyntaxValidator \<Rightarrow> PromQLSyntaxValidator" where
  "check_operators self =
     (if re_search double_operator_pattern (v_query self)
      then add_warning
             (new_finding ''double_operator''
                ''Found consecutive operators - this might be a typo'' ''warning'') self
      else self)"

text \<open>
  \<open>\b(rate|irate|increase|delta|idelta)\s*\(\s*[a-zA-Z_:][a-zA-Z0-9_:]*\s*(?:\{[^}]*\})?\s*\)\<close>
\<close>

definition missing_range_pattern :: rx where
  "missing_range_pattern =
     Seqs [WordB,
           Grp 1 (Alts [Str ''rate'', Str ''irate'', Str ''increase'', Str ''delta'', Str ''idelta'']),
           ws, Lit CHR ''('', ws, Cls metric_start, Star (Cls metric_char), ws,
           Opt (Seqs [Lit CHR ''{'', Star (NotC CHR ''}''), Lit CHR ''}'']),
           ws, Lit CHR '')'']"

text \<open>\<open>\boffset\s+\d+[smhdwy]\s*\[\<close> with \<open>re.IGNORECASE\<close>\<close>

definition misplaced_offset_pattern :: rx where
  "misplaced_offset_pattern =
     Seqs [WordB, StrI ''offset'', Rep1 (Cls is_space), Rep1 (Cls is_digit),
           OneOf ''smhdwySMHDWY'', ws, Lit CHR ''['']"

definition check_common_typos :: "PromQLSyntaxValidator \<Rightarrow> PromQLSyntaxValidator" where
  "check_common_typos self =
     (let s1 = (if re_search missing_range_pattern (v_query self)
                then add_error
                       (new_finding ''missing_range_vector''
                          ''rate(), irate(), increase(), delta(), and idelta() require a range vector [duration]''
                          ''error'') self
                else self)
      in if contains '' offset '' (py_lower (v_query s1))
         then (if re_search misplaced_offset_pattern (v_query s1)
               then add_error
                      (new_finding ''misplaced_offset''
                         ''offset modifier should come after the range vector [duration], not before it''
                         ''error'') s1
               else s1)
         else s1)"

subsection \<open>\<open>_build_result\<close> and \<open>validate\<close>\<close>

record syntax_report =
  vr_status :: string
  vr_query :: string
  vr_errors :: "finding list"
  vr_warnings :: "finding list"
  vr_valid :: bool

definition build_result :: "PromQLSyntaxValidator \<Rightarrow> syntax_report" where
  "build_result self =
     (let has_errors = (length (v_errors self) > 0);
          has_warnings = (length (v_warnings self) > 0);
          status = (if has_errors then ''ERROR''
                    else if has_warnings then ''WARNING''
                    else ''VALID'')
      in \<lparr>vr_status = status, vr_query = v_query self, vr_errors = v_errors self,
          vr_warnings = v_warnings self, vr_valid = (\<not> has_errors)\<rparr>)"

text \<open>\<open>validate\<close> on a validator, and on a fresh validator for a query as \<open>main\<close> runs it.\<close>

definition validate :: "string list \<Rightarrow> PromQLSyntaxValidator \<Rightarrow> syntax_report" where
  "validate order self =
     (if v_query self = []
      then build_result
             (add_error (new_finding ''empty_query'' ''Query is empty'' ''error'') self)
      else build_result
             (check_common_typos
               (check_operators
                 (check_function_syntax order
                   (check_time_ranges
                     (check_metric_selectors
                       (check_balanced_delimiters self)))))))"

definition validate_query :: "string list \<Rightarrow> string \<Rightarrow> syntax_report" where
  "validate_query order query = validate order (new_validator query)"

section \<open>PromQL best-practices checker (promql-validator/scripts/check_best_practices.py)\<close>

definition COUNTER_SUFFIXES :: "string list" where
  "COUNTER_SUFFIXES = [''_total'', ''_count'', ''_sum'', ''_bucket'']"

definition GAUGE_PATTERNS :: "string list" where
  "GAUGE_PATTERNS =
    [''_bytes'', ''_ratio'', ''_usage'', ''_percent'', ''_gauge'', ''_celsius'',
     ''_fahrenheit'', ''_temperature'', ''_info'', ''_size'', ''_current'', ''_limit'',
     ''_available'', ''_free'', ''_used'', ''_utilization'', ''_capacity'', ''_level'']"

text \<open>The set \<open>reserved_words\<close>, the same in \<open>_check_high_cardinality\<close> and \<open>_check_mixed_metric_types\<close>.\<close>

definition reserved_words :: "string list" where
  "reserved_words =
    [''sum'', ''avg'', ''min'', ''max'', ''count'', ''stddev'', ''stdvar'', ''group'',
     ''topk'', ''bottomk'', ''quantile'', ''count_values'', ''limitk'', ''limit_ratio'',
     ''rate'', ''irate'', ''increase'', ''delta'', ''idelta'', ''deriv'',
     ''predict_linear'', ''histogram_quantile'', ''histogram_count'', ''histogram_sum'',
     ''histogram_fraction'', ''histogram_avg'', ''histogram_stddev'', ''histogram_stdvar'',
     ''abs'', ''ceil'', ''floor'', ''round'', ''sqrt'', ''exp'', ''ln'', ''log2'',
     ''log10'', ''sin'', ''cos'', ''tan'', ''asin'', ''acos'', ''atan'', ''sinh'', ''cosh'',
     ''tanh'', ''deg'', ''rad'', ''sgn'', ''clamp'', ''clamp_max'', ''clamp_min'', ''pi'',
     ''timestamp'', ''time'', ''minute'', ''hour'', ''day_of_month'', ''day_of_week'',
     ''days_in_month'', ''month'', ''year'', ''label_replace'', ''label_join'', ''vector'',
     ''scalar'', ''changes'', ''resets'', ''absent'', ''absent_over_time'',
     ''present_over_time'', ''avg_over_time'', ''min_over_time'', ''max_over_time'',
     ''sum_over_time'', ''count_over_time'', ''quantile_over_time'', ''stddev_over_time'',
     ''stdvar_over_time'', ''last_over_time'', ''mad_over_time'', ''sort'', ''sort_desc'',
     ''sort_by_label'', ''sort_by_label_desc'', ''holt_winters'',
     ''double_exponential_smoothing'', ''info'', ''by'', ''without'', ''and'', ''or'',
     ''unless'', ''on'', ''ignoring'', ''group_left'', ''group_right'', ''bool'',
     ''offset'', ''start'', ''end'', ''inf'', ''nan'']"

record PromQLBestPracticesChecker =
  c_query :: string
  issues :: "finding list"
  suggestions :: "finding list"
  optimizations :: "finding list"

definition new_checker :: "string \<Rightarrow> PromQLBestPracticesChecker" where
  "new_checker query =
     \<lparr>c_query = py_strip query, issues = [], suggestions = [], optimizations = []\<rparr>"

definition rec_finding :: "string \<Rightarrow> string \<Rightarrow> string \<Rightarrow> string \<Rightarrow> finding" where
  "rec_finding t m sev r = (new_finding t m sev)\<lparr>recommendation := Some r\<rparr>"

definition add_issue :: "finding \<Rightarrow> PromQLBestPracticesChecker \<Rightarrow> PromQLBestPracticesChecker" where
  "add_issue f self = self\<lparr>issues := issues self @ [f]\<rparr>"

definition add_suggestion :: "finding \<Rightarrow> PromQLBestPracticesChecker \<Rightarrow> PromQLBestPracticesChecker" where
  "add_suggestion f self = self\<lparr>suggestions := suggestions self @ [f]\<rparr>"

definition add_optimization :: "finding \<Rightarrow> PromQLBestPracticesChecker \<Rightarrow> PromQLBestPracticesChecker" where
  "add_optimization f self = self\<lparr>optimizations := optimizations self @ [f]\<rparr>"

text \<open>The patterns are built from these pieces.\<close>

definition metric_name_rx :: rx where
  "metric_name_rx = Seq (Cls metric_start) (Star (Cls metric_char))"

definition label_name_rx :: rx where
  "label_name_rx = Seq (Cls label_start) (Star (Cls label_char))"

definition rate_family_rx :: rx where
  "rate_family_rx =
     Alts [Str ''rate'', Str ''irate'', Str ''increase'', Str ''delta'', Str ''idelta'']"

definition unit_rx :: rx where
  "unit_rx = Alts [Str ''ms'', Str ''s'', Str ''m'', Str ''h'', Str ''d'', Str ''w'', Str ''y'']"

definition le_in_by_pattern :: rx where
  "le_in_by_pattern =
     Seqs [WordB, Str ''by'', ws, Lit CHR ''('', Star (NotC CHR '')''), WordB, Str ''le'', WordB]"

subsection \<open>\<open>_strip_label_selectors_and_strings\<close>\<close>

text \<open>\<open>\b(by|without|on|ignoring|group_left|group_right)\s*\([^)]*\)\<close>, replaced by \<open>\1 ( )\<close>\<close>

definition grouping_clause_pattern :: rx where
  "grouping_clause_pattern =
     Seqs [WordB,
           Grp 1 (Alts [Str ''by'', Str ''without'', Str ''on'', Str ''ignoring'',
                        Str ''group_left'', Str ''group_right'']),
           ws, Lit CHR ''('', Star (NotC CHR '')''), Lit CHR '')'']"

text \<open>
  The local variables of the \<open>while\<close> loop, which visits every character once.
  \<open>max(0, depth - 1)\<close> is the subtraction of natural numbers.
\<close>

record strip_state =
  result :: string
  depth :: nat
  ss_in_string :: bool
  ss_escape_next :: bool

definition strip_step :: "strip_state \<Rightarrow> char \<Rightarrow> strip_state" where
  "strip_step st char =
     (if ss_escape_next st then st\<lparr>ss_escape_next := False\<rparr>
      else if char = CHR 0x5C then st\<lparr>ss_escape_next := True\<rparr>
      else if char = CHR 0x22 then st\<lparr>ss_in_string := \<not> ss_in_string st\<rparr>
      else if ss_in_string st then st
      else if char = CHR ''{'' then st\<lparr>depth := depth st + 1, result := result st @ '' ''\<rparr>
      else if char = CHR ''}'' then st\<lparr>depth := depth st - 1, result := result st @ '' ''\<rparr>
      else if depth st = 0 then st\<lparr>result := result st @ [char]\<rparr>
      else st\<lparr>result := result st @ '' ''\<rparr>)"

definition strip_label_selectors_and_strings :: "string \<Rightarrow> string" where
  "strip_label_selectors_and_strings query0 =
     (let query = re_sub grouping_clause_pattern (\<lambda>c. grp 1 c @ '' ( )'') query0
      in result (foldl strip_step
                   \<lparr>result = [], depth = 0, ss_in_string = False, ss_escape_next = False\<rparr>
                   query))"

subsection \<open>\<open>_check_high_cardinality\<close>\<close>

text \<open>\<open>\b[a-zA-Z_:][a-zA-Z0-9_:]*\s*\{\s*\}\<close>\<close>

definition empty_selector_pattern :: rx where
  "empty_selector_pattern = Seqs [WordB, metric_name_rx, ws, Lit CHR ''{'', ws, Lit CHR ''}'']"

text \<open>\<open>metric_pattern = \b([a-zA-Z_:][a-zA-Z0-9_:]*)\b(?!\s*[{\(])\<close>\<close>

definition bare_metric_pattern :: rx where
  "bare_metric_pattern =
     Seqs [WordB, Grp 1 metric_name_rx, WordB, NegLook (Seq ws (OneOf ''{(''))]"

text \<open>\<open>\b{escaped_metric}\s*\{\s*[^}]+\s*\}\<close>\<close>

definition has_filters_pattern :: "string \<Rightarrow> rx" where
  "has_filters_pattern metric =
     Seqs [WordB, Str metric, ws, Lit CHR ''{'', ws, Rep1 (NotC CHR ''}''), ws, Lit CHR ''}'']"

definition high_cardinality_step ::
  "PromQLBestPracticesChecker \<Rightarrow> string \<Rightarrow> PromQLBestPracticesChecker" where
  "high_cardinality_step self metric =
     (if py_lower metric \<notin> set reserved_words
      then (if \<not> re_search (has_filters_pattern metric) (c_query self)
            then add_issue
                   (rec_finding ''high_cardinality''
                      (''Metric \"'' @ metric @ ''\" used without label filters'')
                      ''warning''
                      (''Add label filters: '' @ metric @ ''{job=\"...\", instance=\"...\"}''))
                   self
            else self)
      else self)"

definition check_high_cardinality :: "PromQLBestPracticesChecker \<Rightarrow> PromQLBestPracticesChecker" where
  "check_high_cardinality self =
     (let s1 = (if re_search empty_selector_pattern (c_query self)
                then add_issue
                       (rec_finding ''high_cardinality''
                          ''Query uses empty label matcher {} which may match many time series''
                          ''warning''
                          ''Add specific label filters like {job=\"...\", instance=\"...\"} to reduce cardinality'')
                       self
                else self);
          query_without_selectors = strip_label_selectors_and_strings (c_query s1);
          metrics_without_selectors = findall1 bare_metric_pattern query_without_selectors
      in foldl high_cardinality_step s1 metrics_without_selectors)"

subsection \<open>\<open>_check_regex_overuse\<close>\<close>

text \<open>\<open>([a-zA-Z_][a-zA-Z0-9_]*)\s*=~\s*"([^"]+)"\<close>\<close>

definition regex_matcher_pattern :: rx where
  "regex_matcher_pattern =
     Seqs [Grp 1 label_name_rx, ws, Str ''=~'', ws, Lit (CHR 0x22),
           Grp 2 (Rep1 (NotC (CHR 0x22))), Lit (CHR 0x22)]"

text \<open>\<open>regex_metacharacters = [\.\*\+\?\^\$\[\]\(\)\|\\]\<close>\<close>

definition regex_metacharacters :: rx where
  "regex_metacharacters = Cls (\<lambda>c. c \<in> set ''.*+?^$[]()|'' \<or> c = CHR 0x5C)"

text \<open>\<open>[a-zA-Z0-9_\-]+\<close>\<close>

definition plain_value_pattern :: rx where
  "plain_value_pattern = Rep1 (Cls (\<lambda>c. label_char c \<or> c = CHR ''-''))"

definition regex_overuse_step ::
  "PromQLBestPracticesChecker \<Rightarrow> string \<times> string \<Rightarrow> PromQLBestPracticesChecker" where
  "regex_overuse_step self lp =
     (case lp of (label, pattern) \<Rightarrow>
        let has_regex_chars = re_search regex_metacharacters pattern;
            s1 = (if \<not> has_regex_chars \<and> re_fullmatch plain_value_pattern pattern
                  then add_optimization
                         (rec_finding ''regex_to_exact''
                            (''Label matcher '' @ label @ ''=~\"'' @ pattern @
                             ''\" can be an exact match'')
                            ''info''
                            (''Use '' @ label @ ''=\"'' @ pattern @
                             ''\" instead of =~ for better performance''))
                         self
                  else self)
        in if ends_with ''.*'' pattern
           then add_suggestion
                  (rec_finding ''regex_optimization''
                     (''Regex pattern \"'' @ pattern @ ''\" uses wildcard suffix'')
                     ''info''
                     ''Consider if you can use more specific label values'')
                  s1
           else s1)"

definition check_regex_overuse :: "PromQLBestPracticesChecker \<Rightarrow> PromQLBestPracticesChecker" where
  "check_regex_overuse self =
     foldl regex_overuse_step self (findall2 regex_matcher_pattern (c_query self))"

subsection \<open>\<open>_check_missing_rate_on_counters\<close>\<close>

text \<open>\<open>\b([a-zA-Z_:][a-zA-Z0-9_:]*(?:_total|_count|_sum|_bucket))\b\<close>\<close>

definition counter_metric_pattern :: rx where
  "counter_metric_pattern =
     Seqs [WordB,
           Grp 1 (Seqs [Cls metric_start, Star (Cls metric_char),
                        Alts [Str ''_total'', Str ''_count'', Str ''_sum'', Str ''_bucket'']]),
           WordB]"

text \<open>\<open>(?:rate|irate|increase|delta|idelta)\s*\([^)]*{escaped_metric}\<close>\<close>

definition wrapped_in_rate_pattern :: "string \<Rightarrow> rx" where
  "wrapped_in_rate_pattern metric =
     Seqs [rate_family_rx, ws, Lit CHR ''('', Star (NotC CHR '')''), Str metric]"

text \<open>\<open>histogram_quantile\s*\([^)]*{escaped_metric}\<close>\<close>

definition in_histogram_quantile_pattern :: "string \<Rightarrow> rx" where
  "in_histogram_quantile_pattern metric =
     Seqs [Str ''histogram_quantile'', ws, Lit CHR ''('', Star (NotC CHR '')''), Str metric]"

text \<open>
  \<open>{base_metric}_sum.*{base_metric}_count|{base_metric}_count.*{base_metric}_sum\<close>.
  \<open>base_metric\<close> goes into the pattern as it is; it is made of letters, digits,
  \<open>_\<close> and \<open>:\<close>, which stand for themselves.
\<close>

definition sum_count_pair_pattern :: "string \<Rightarrow> rx" where
  "sum_count_pair_pattern base_metric =
     Alt (Seqs [Str (base_metric @ ''_sum''), Star Dot, Str (base_metric @ ''_count'')])
         (Seqs [Str (base_metric @ ''_count''), Star Dot, Str (base_metric @ ''_sum'')])"

text \<open>\<open>histogram_(?:avg|stddev|stdvar|count|sum|fraction)\s*\([^)]*{escaped_metric}\<close>\<close>

definition in_native_histogram_pattern :: "string \<Rightarrow> rx" where
  "in_native_histogram_pattern metric =
     Seqs [Str ''histogram_'',
           Alts [Str ''avg'', Str ''stddev'', Str ''stdvar'', Str ''count'', Str ''sum'',
                 Str ''fraction''],
           ws, Lit CHR ''('', Star (NotC CHR '')''), Str metric]"

definition missing_rate_step ::
  "PromQLBestPracticesChecker \<Rightarrow> string \<Rightarrow> PromQLBestPracticesChecker" where
  "missing_rate_step self metric =
     (if \<not> re_search (wrapped_in_rate_pattern metric) (c_query self) then
        (if \<not> re_search (in_histogram_quantile_pattern metric) (c_query self) then
           (if (ends_with ''_sum'' metric \<or> ends_with ''_count'' metric) \<and>
               re_search (sum_count_pair_pattern (rsplit1_head CHR ''_'' metric)) (c_query self)
            then self
            else if re_search (in_native_histogram_pattern metric) (c_query self)
            then self
            else add_issue
                   (rec_finding ''missing_rate''
                      (''Counter metric \"'' @ metric @ ''\" used without rate() or increase()'')
                      ''warning''
                      (''Use rate('' @ metric @ ''[5m]) to get per-second rate''))
                   self)
         else self)
      else self)"

definition check_missing_rate_on_counters ::
  "PromQLBestPracticesChecker \<Rightarrow> PromQLBestPracticesChecker" where
  "check_missing_rate_on_counters self =
     foldl missing_rate_step self (findall1 counter_metric_pattern (c_query self))"

subsection \<open>\<open>_check_rate_on_gauges\<close>\<close>

text \<open>\<open>(rate|irate|increase|delta|idelta)\s*\(\s*([a-zA-Z_:][a-zA-Z0-9_:]*)\<close>\<close>

definition rate_call_pattern :: rx where
  "rate_call_pattern = Seqs [Grp 1 rate_family_rx, ws, Lit CHR ''('', ws, Grp 2 metric_name_rx]"

definition rate_on_gauge_step ::
  "PromQLBestPracticesChecker \<Rightarrow> string \<times> string \<Rightarrow> PromQLBestPracticesChecker" where
  "rate_on_gauge_step self fm =
     (case fm of (func, metric) \<Rightarrow>
        let is_gauge = list_ex (\<lambda>pattern. contains pattern metric) GAUGE_PATTERNS;
            is_counter = list_ex (\<lambda>suffix. ends_with suffix metric) COUNTER_SUFFIXES
        in if is_gauge \<and> \<not> is_counter
           then add_issue
                  (rec_finding ''rate_on_gauge''
                     (func @ ''() used on gauge metric \"'' @ metric @ ''\"'')
                     ''warning''
                     (''Gauges should not use rate(). Use avg_over_time('' @ metric @
                      ''[5m]) or remove rate()''))
                  self
           else self)"

definition check_rate_on_gauges :: "PromQLBestPracticesChecker \<Rightarrow> PromQLBestPracticesChecker" where
  "check_rate_on_gauges self =
     foldl rate_on_gauge_step self (findall2 rate_call_pattern (c_query self))"

subsection \<open>\<open>_check_averaging_quantiles\<close>\<close>

text \<open>\<open>avg\s*\([^)]*\{[^}]*quantile\s*=\<close>\<close>

definition averaging_quantiles_pattern :: rx where
  "averaging_quantiles_pattern =
     Seqs [Str ''avg'', ws, Lit CHR ''('', Star (NotC CHR '')''), Lit CHR ''{'',
           Star (NotC CHR ''}''), Str ''quantile'', ws, Lit CHR ''='']"

definition averaging_quantiles_finding :: finding where
  "averaging_quantiles_finding =
     rec_finding ''averaging_quantiles''
       ''Averaging pre-calculated quantiles is mathematically invalid''
       ''error''
       ''Use histogram_quantile() with histogram buckets instead''"

definition check_averaging_quantiles ::
  "PromQLBestPracticesChecker \<Rightarrow> PromQLBestPracticesChecker" where
  "check_averaging_quantiles self =
     (if re_search averaging_quantiles_pattern (c_query self)
      then add_issue averaging_quantiles_finding self
      else self)"

subsection \<open>Durations: \<open>int\<close>, \<open>_duration_to_seconds\<close>, \<open>_duration_to_minutes\<close>, \<open>_duration_to_hours\<close>\<close>

text \<open>
  The exceptions the duration checks can raise; nothing in the script catches them, so
  \<open>check\<close> ends with them.
\<close>

datatype py_error = OverflowError | ValueError

text \<open>
  \<open>int(s)\<close> for a run of digits.  Since CPython 3.11 \<open>int\<close> raises \<open>ValueError\<close> for more
  than \<open>sys.get_int_max_str_digits()\<close> digits (4300 unless configured; the limit is
  looked at only beyond 640 digits, and 0 turns it off, which is also the behaviour
  of older versions).  The limit is the parameter \<open>max_str_digits\<close>.
\<close>

definition py_int :: "nat \<Rightarrow> string \<Rightarrow> py_error + nat" where
  "py_int max_str_digits s =
     (if 640 < length s \<and> 0 < max_str_digits \<and> max_str_digits < length s
      then Inl ValueError
      else Inr (nat_of_digits s))"

text \<open>
  The least integer that does not round to a finite float: converting it, or a
  quotient that large, raises \<open>OverflowError\<close>.
\<close>

definition float_overflow_bound :: nat where
  "float_overflow_bound = 2 ^ 1024 - 2 ^ 970"

text \<open>
  \<open>int(value * units.get(unit, 1))\<close>.  The unit \<open>ms\<close> has the float factor 0.001:
  the integer is converted to a float, which overflows from \<open>float_overflow_bound\<close> on,
  and the product is truncated.  The product is modelled by the exact quotient; the
  float differs from it only for values from about \<open>10 ^ 13\<close> on, far above the
  thresholds the result is compared with.  The other factors are integers.
\<close>

definition units :: "string \<Rightarrow> nat" where
  "units unit =
     (if unit = ''s'' then 1
      else if unit = ''m'' then 60
      else if unit = ''h'' then 3600
      else if unit = ''d'' then 86400
      else if unit = ''w'' then 604800
      else if unit = ''y'' then 31536000
      else 1)"

definition duration_to_seconds :: "nat \<Rightarrow> string \<Rightarrow> py_error + nat" where
  "duration_to_seconds v unit =
     (if unit = ''ms''
      then (if float_overflow_bound \<le> v then Inl OverflowError else Inr (v div 1000))
      else Inr (v * units unit))"

text \<open>
  The true division \<open>a / b\<close> of integers gives the float nearest to the quotient, or
  raises \<open>OverflowError\<close>.  The float is kept as the fraction it rounds: it is only
  compared with 5, 10 and 168, and rounding to the nearest float does not move a
  quotient across an integer.
\<close>

definition true_div :: "nat \<Rightarrow> nat \<Rightarrow> py_error + nat \<times> nat" where
  "true_div a b = (if b * float_overflow_bound \<le> a then Inl OverflowError else Inr (a, b))"

definition frac_less :: "nat \<times> nat \<Rightarrow> nat \<Rightarrow> bool" where
  "frac_less q k = (fst q < k * snd q)"

definition frac_greater :: "nat \<times> nat \<Rightarrow> nat \<Rightarrow> bool" where
  "frac_greater q k = (k * snd q < fst q)"

definition duration_to_minutes :: "nat \<Rightarrow> string \<Rightarrow> py_error + nat \<times> nat" where
  "duration_to_minutes v unit =
     (case duration_to_seconds v unit of Inl e \<Rightarrow> Inl e | Inr seconds \<Rightarrow> true_div seconds 60)"

definition duration_to_hours :: "nat \<Rightarrow> string \<Rightarrow> py_error + nat \<times> nat" where
  "duration_to_hours v unit =
     (case duration_to_seconds v unit of Inl e \<Rightarrow> Inl e | Inr seconds \<Rightarrow> true_div seconds 3600)"

text \<open>A loop whose body may raise: the first exception ends it.\<close>

fun foldl_err :: "('s \<Rightarrow> 'a \<Rightarrow> py_error + 's) \<Rightarrow> 's \<Rightarrow> 'a list \<Rightarrow> py_error + 's" where
  "foldl_err f s [] = Inr s"
| "foldl_err f s (x # xs) = (case f s x of Inl e \<Rightarrow> Inl e | Inr s' \<Rightarrow> foldl_err f s' xs)"

subsection \<open>\<open>_check_subquery_performance\<close>, \<open>_check_irate_range\<close>, \<open>_check_rate_range\<close>\<close>

text \<open>\<open>subquery_pattern = \[(\d+)([smhdwy])[^\]]*:\s*(\d+)?([smhdwy])?\]\<close>\<close>

definition subquery_pattern :: rx where
  "subquery_pattern =
     Seqs [Lit CHR ''['', Grp 1 (Rep1 (Cls is_digit)), Grp 2 (OneOf ''smhdwy''),
           Star (NotC CHR '']''), Lit CHR '':'', ws, Opt (Grp 3 (Rep1 (Cls is_digit))),
           Opt (Grp 4 (OneOf ''smhdwy'')), Lit CHR '']'']"

definition subquery_step ::
  "nat \<Rightarrow> PromQLBestPracticesChecker \<Rightarrow> string \<times> string \<Rightarrow> py_error + PromQLBestPracticesChecker" where
  "subquery_step max_str_digits self vu =
     (case vu of (range_val, range_unit) \<Rightarrow>
        case py_int max_str_digits range_val of
          Inl e \<Rightarrow> Inl e
        | Inr v \<Rightarrow>
            (case duration_to_hours v range_unit of
               Inl e \<Rightarrow> Inl e
             | Inr range_hours \<Rightarrow>
                 if frac_greater range_hours (24 * 7)
                 then Inr (add_issue
                        (rec_finding ''expensive_subquery''
                           (''Subquery spans '' @ range_val @ range_unit @ '' which may be very slow'')
                           ''warning''
                           ''Consider using recording rules or reducing the time range'')
                        self)
                 else Inr self))"

definition check_subquery_performance ::
  "nat \<Rightarrow> PromQLBestPracticesChecker \<Rightarrow> py_error + PromQLBestPracticesChecker" where
  "check_subquery_performance max_str_digits self =
     foldl_err (subquery_step max_str_digits) self (findall2 subquery_pattern (c_query self))"

text \<open>\<open>irate_pattern = irate\s*\([^)]*\[(\d+)([smhdwy])\]\<close>\<close>

definition irate_pattern :: rx where
  "irate_pattern =
     Seqs [Str ''irate'', ws, Lit CHR ''('', Star (NotC CHR '')''), Lit CHR ''['',
           Grp 1 (Rep1 (Cls is_digit)), Grp 2 (OneOf ''smhdwy''), Lit CHR '']'']"

definition irate_step ::
  "nat \<Rightarrow> PromQLBestPracticesChecker \<Rightarrow> string \<times> string \<Rightarrow> py_error + PromQLBestPracticesChecker" where
  "irate_step max_str_digits self du =
     (case du of (duration, unit) \<Rightarrow>
        case py_int max_str_digits duration of
          Inl e \<Rightarrow> Inl e
        | Inr v \<Rightarrow>
            (case duration_to_minutes v unit of
               Inl e \<Rightarrow> Inl e
             | Inr minutes \<Rightarrow>
                 if frac_greater minutes 5
                 then Inr (add_issue
                        (rec_finding ''irate_long_range''
                           (''irate() used with '' @ duration @ unit @
                            '' range - irate only looks at last 2 samples'')
                           ''warning''
                           ''Use rate() for ranges > 5m, or reduce irate range to [2m]'')
                        self)
                 else Inr self))"

definition check_irate_range ::
  "nat \<Rightarrow> PromQLBestPracticesChecker \<Rightarrow> py_error + PromQLBestPracticesChecker" where
  "check_irate_range max_str_digits self =
     foldl_err (irate_step max_str_digits) self (findall2 irate_pattern (c_query self))"

text \<open>\<open>rate_pattern = rate\s*\([^)]*\[(\d+)(ms|s|m|h|d|w|y)\]\<close>\<close>

definition rate_pattern :: rx where
  "rate_pattern =
     Seqs [Str ''rate'', ws, Lit CHR ''('', Star (NotC CHR '')''), Lit CHR ''['',
           Grp 1 (Rep1 (Cls is_digit)), Grp 2 unit_rx, Lit CHR '']'']"

definition rate_step ::
  "nat \<Rightarrow> PromQLBestPracticesChecker \<Rightarrow> string \<times> string \<Rightarrow> py_error + PromQLBestPracticesChecker" where
  "rate_step max_str_digits self du =
     (case du of (duration, unit) \<Rightarrow>
        case py_int max_str_digits duration of
          Inl e \<Rightarrow> Inl e
        | Inr v \<Rightarrow>
            (case duration_to_seconds v unit of
               Inl e \<Rightarrow> Inl e
             | Inr seconds \<Rightarrow>
                 if seconds < 120
                 then Inr (add_issue
                        (rec_finding ''rate_short_range''
                           (''rate() used with very short range ['' @ duration @ unit @ '']'')
                           ''warning''
                           ''Rate range should be at least 4x scrape interval, typically [2m] or more'')
                        self)
                 else Inr self))"

definition check_rate_range ::
  "nat \<Rightarrow> PromQLBestPracticesChecker \<Rightarrow> py_error + PromQLBestPracticesChecker" where
  "check_rate_range max_str_digits self =
     foldl_err (rate_step max_str_digits) self (findall2 rate_pattern (c_query self))"

subsection \<open>\<open>_check_unbounded_queries\<close> and \<open>_check_aggregation_best_practices\<close>\<close>

text \<open>\<open>\s*(>|<|>=|<=|==|!=)\s*[\d\.]\<close>\<close>

definition alerting_pattern :: rx where
  "alerting_pattern =
     Seqs [ws,
           Grp 1 (Alts [Str ''>'', Str ''<'', Str ''>='', Str ''<='', Str ''=='', Str ''!='']),
           ws, Cls (\<lambda>c. is_digit c \<or> c = CHR ''.'')]"

text \<open>\<open>{agg}\s*\([^)]+\)(?!\s*(?:by|without)\s*\()\<close>\<close>

definition unbounded_pattern :: "string \<Rightarrow> rx" where
  "unbounded_pattern agg =
     Seqs [Str agg, ws, Lit CHR ''('', Rep1 (NotC CHR '')''), Lit CHR '')'',
           NegLook (Seqs [ws, Alt (Str ''by'') (Str ''without''), ws, Lit CHR ''(''])]"

definition unbounded_step ::
  "bool \<Rightarrow> PromQLBestPracticesChecker \<Rightarrow> string \<Rightarrow> PromQLBestPracticesChecker" where
  "unbounded_step is_alerting_query self agg =
     (if re_search (unbounded_pattern agg) (c_query self)
      then (if is_alerting_query
            then add_suggestion
                   (rec_finding ''missing_aggregation_clause''
                      (agg @ ''() used without by() or without() clause (likely intentional for alerting)'')
                      ''info''
                      ''Full aggregation is common for alerting queries. Add \"by (label)\" only if you need per-label alerts.'')
                   self
            else add_suggestion
                   (rec_finding ''missing_aggregation_clause''
                      (agg @ ''() used without by() or without() clause'')
                      ''info''
                      (''Consider adding \"by (label)\" or \"without (label)\" to '' @ agg @
                       ''() for clearer results''))
                   self)
      else self)"

definition check_unbounded_queries :: "PromQLBestPracticesChecker \<Rightarrow> PromQLBestPracticesChecker" where
  "check_unbounded_queries self =
     (let aggregations = [''sum'', ''avg'', ''min'', ''max'', ''count''];
          is_alerting_query = re_search alerting_pattern (c_query self)
      in foldl (unbounded_step is_alerting_query) self aggregations)"

text \<open>\<open>count\s*\([^)]+\)(?!\s*by)\<close>\<close>

definition count_without_by_pattern :: rx where
  "count_without_by_pattern =
     Seqs [Str ''count'', ws, Lit CHR ''('', Rep1 (NotC CHR '')''), Lit CHR '')'',
           NegLook (Seq ws (Str ''by''))]"

definition check_aggregation_best_practices ::
  "PromQLBestPracticesChecker \<Rightarrow> PromQLBestPracticesChecker" where
  "check_aggregation_best_practices self =
     (if re_search count_without_by_pattern (c_query self)
      then add_suggestion
             (rec_finding ''count_without_by''
                ''count() used without by() - this counts all matching series''
                ''info''
                ''If you want to count by label, use: count(...) by (label)'')
             self
      else self)"

subsection \<open>\<open>_check_recording_rule_opportunity\<close> and \<open>_check_label_matcher_efficiency\<close>\<close>

text \<open>\<open>\b[a-z_]+\s*\(\<close>\<close>

definition func_call_pattern :: rx where
  "func_call_pattern =
     Seqs [WordB, Rep1 (Cls (\<lambda>c. is_lower c \<or> c = CHR ''_'')), ws, Lit CHR ''('']"

text \<open>\<open>(sum|avg|min|max)\s*\([^)]*\b(sum|avg|min|max)\s*\(\<close>\<close>

definition nested_aggregation_pattern :: rx where
  "nested_aggregation_pattern =
     Seqs [Grp 1 (Alts [Str ''sum'', Str ''avg'', Str ''min'', Str ''max'']), ws, Lit CHR ''('',
           Star (NotC CHR '')''), WordB,
           Grp 2 (Alts [Str ''sum'', Str ''avg'', Str ''min'', Str ''max'']), ws, Lit CHR ''('']"

text \<open>\<open>\[[^\]]+:[^\]]+\]\<close>\<close>

definition subquery_span_pattern :: rx where
  "subquery_span_pattern =
     Seqs [Lit CHR ''['', Rep1 (NotC CHR '']''), Lit CHR '':'', Rep1 (NotC CHR '']''),
           Lit CHR '']'']"

definition check_recording_rule_opportunity ::
  "PromQLBestPracticesChecker \<Rightarrow> PromQLBestPracticesChecker" where
  "check_recording_rule_opportunity self =
     (let func_count = length (findall0 func_call_pattern (c_query self));
          score1 = (if func_count \<ge> 3 then 1 else 0 :: nat);
          score2 = (if re_search nested_aggregation_pattern (c_query self)
                    then score1 + 1 else score1);
          score3 = (if re_search subquery_span_pattern (c_query self)
                    then score2 + 1 else score2);
          complexity_score = (if length (c_query self) > 150 then score3 + 1 else score3)
      in if complexity_score \<ge> 2
         then add_suggestion
                (rec_finding ''recording_rule_opportunity''
                   ''Query is complex and may benefit from recording rules''
                   ''info''
                   ''Consider creating recording rules if this query is used frequently'')
                self
         else self)"

definition check_label_matcher_efficiency ::
  "PromQLBestPracticesChecker \<Rightarrow> PromQLBestPracticesChecker" where
  "check_label_matcher_efficiency self =
     (if py_count (c_query self) '' or '' \<ge> 2
      then add_suggestion
             (rec_finding ''multiple_or_conditions''
                ''Multiple OR conditions found''
                ''info''
                ''Consider using regex matcher =~ \"value1|value2|value3\" if checking same label'')
             self
      else self)"

subsection \<open>\<open>_check_histogram_usage\<close> and \<open>_check_deprecated_functions\<close>\<close>

text \<open>\<open>\brate\s*\(\<close>\<close>

definition rate_call_anywhere_pattern :: rx where
  "rate_call_anywhere_pattern = Seqs [WordB, Str ''rate'', ws, Lit CHR ''('']"

definition check_histogram_usage :: "PromQLBestPracticesChecker \<Rightarrow> PromQLBestPracticesChecker" where
  "check_histogram_usage self =
     (if contains ''histogram_quantile'' (c_query self) then
        (let has_rate = re_search rate_call_anywhere_pattern (c_query self);
             has_bucket_metric = contains ''_bucket'' (c_query self);
             s1 = (if has_bucket_metric \<and> \<not> has_rate
                   then add_issue
                          (rec_finding ''histogram_missing_rate''
                             ''histogram_quantile() should use rate() on bucket metrics''
                             ''warning''
                             ''Use: histogram_quantile(0.95, sum by (le) (rate(metric_bucket[5m])))'')
                          self
                   else self)
         in if has_bucket_metric
            then (let has_le_in_by = re_search le_in_by_pattern (c_query s1)
                  in if \<not> has_le_in_by
                     then add_issue
                            (rec_finding ''histogram_missing_le''
                               ''histogram_quantile() with classic histograms should aggregate by (le) label''
                               ''warning''
                               ''Include \"le\" in the by() clause: sum by (job, le) (...)'')
                            s1
                     else s1)
            else s1)
      else self)"

text \<open>\<open>\bholt_winters\s*\(\<close>\<close>

definition holt_winters_pattern :: rx where
  "holt_winters_pattern = Seqs [WordB, Str ''holt_winters'', ws, Lit CHR ''('']"

definition check_deprecated_functions ::
  "PromQLBestPracticesChecker \<Rightarrow> PromQLBestPracticesChecker" where
  "check_deprecated_functions self =
     (if re_search holt_winters_pattern (c_query self)
      then add_issue
             (rec_finding ''deprecated_function''
                ''holt_winters() is deprecated in Prometheus 3.0''
                ''warning''
                ''Use double_exponential_smoothing() instead (requires --enable-feature=promql-experimental-functions)'')
             self
      else self)"

subsection \<open>\<open>_check_predict_linear_range\<close>\<close>

text \<open>\<open>predict_pattern = predict_linear\s*\([^)]*\[(\d+)(ms|s|m|h|d|w|y)\]\<close>\<close>

definition predict_pattern :: rx where
  "predict_pattern =
     Seqs [Str ''predict_linear'', ws, Lit CHR ''('', Star (NotC CHR '')''), Lit CHR ''['',
           Grp 1 (Rep1 (Cls is_digit)), Grp 2 unit_rx, Lit CHR '']'']"

definition predict_step ::
  "nat \<Rightarrow> PromQLBestPracticesChecker \<Rightarrow> string \<times> string \<Rightarrow> py_error + PromQLBestPracticesChecker" where
  "predict_step max_str_digits self du =
     (case du of (duration, unit) \<Rightarrow>
        case py_int max_str_digits duration of
          Inl e \<Rightarrow> Inl e
        | Inr v \<Rightarrow>
            (case duration_to_minutes v unit of
               Inl e \<Rightarrow> Inl e
             | Inr minutes \<Rightarrow>
                 if frac_less minutes 10
                 then Inr (add_issue
                        (rec_finding ''predict_linear_short_range''
                           (''predict_linear() used with short range ['' @ duration @ unit @ '']'')
                           ''warning''
                           ''predict_linear() needs sufficient data for reliable predictions. Use at least [10m] or longer.'')
                        self)
                 else Inr self))"

definition check_predict_linear_range ::
  "nat \<Rightarrow> PromQLBestPracticesChecker \<Rightarrow> py_error + PromQLBestPracticesChecker" where
  "check_predict_linear_range max_str_digits self =
     foldl_err (predict_step max_str_digits) self (findall2 predict_pattern (c_query self))"

subsection \<open>\<open>_check_division_by_zero_risk\<close>, \<open>_check_changes_resets_alerting\<close>, \<open>_check_dimensional_metric_names\<close>\<close>

text \<open>\<open>/\s*(?:rate|increase)\s*\([^)]*(?:_count|_total)[^)]*\)\<close>\<close>

definition division_pattern :: rx where
  "division_pattern =
     Seqs [Lit CHR ''/'', ws, Alt (Str ''rate'') (Str ''increase''), ws, Lit CHR ''('',
           Star (NotC CHR '')''), Alt (Str ''_count'') (Str ''_total''),
           Star (NotC CHR '')''), Lit CHR '')'']"

definition check_division_by_zero_risk ::
  "PromQLBestPracticesChecker \<Rightarrow> PromQLBestPracticesChecker" where
  "check_division_by_zero_risk self =
     (if re_search division_pattern (c_query self)
      then add_suggestion
             (rec_finding ''division_by_zero_risk''
                ''Division by rate() or increase() of counter may result in NaN if denominator is 0''
                ''info''
                ''Consider using \"or vector(0)\" or \"> 0\" filter to handle zero denominators'')
             self
      else self)"

text \<open>\<open>\b(changes|resets)\s*\(\<close>\<close>

definition changes_resets_pattern :: rx where
  "changes_resets_pattern =
     Seqs [WordB, Grp 1 (Alt (Str ''changes'') (Str ''resets'')), ws, Lit CHR ''('']"

definition check_changes_resets_alerting ::
  "PromQLBestPracticesChecker \<Rightarrow> PromQLBestPracticesChecker" where
  "check_changes_resets_alerting self =
     (if re_search changes_resets_pattern (c_query self)
      then add_suggestion
             (rec_finding ''changes_resets_limitation''
                ''changes() and resets() only detect changes between scraped samples''
                ''info''
                ''Events occurring between scrapes will be missed. For alerting, consider alternative approaches.'')
             self
      else self)"

text \<open>
  \<open>bad_patterns\<close>: \<open>\b[a-zA-Z_]+_(GET|POST|PUT|DELETE|PATCH)_[a-zA-Z_]+\<close>,
  \<open>\b[a-zA-Z_]+_\d+_[a-zA-Z_]+\<close> and
  \<open>\b[a-zA-Z_]+_(2\d{2}|3\d{2}|4\d{2}|5\d{2})_[a-zA-Z_]+\<close>.
  The loop appends the same finding for the first pattern found and stops.
\<close>

definition bad_patterns :: "rx list" where
  "bad_patterns =
     [Seqs [WordB, Rep1 (Cls label_start), Lit CHR ''_'',
            Grp 1 (Alts [Str ''GET'', Str ''POST'', Str ''PUT'', Str ''DELETE'', Str ''PATCH'']),
            Lit CHR ''_'', Rep1 (Cls label_start)],
      Seqs [WordB, Rep1 (Cls label_start), Lit CHR ''_'', Rep1 (Cls is_digit), Lit CHR ''_'',
            Rep1 (Cls label_start)],
      Seqs [WordB, Rep1 (Cls label_start), Lit CHR ''_'',
            Grp 1 (Alts [Seqs [Lit CHR ''2'', Cls is_digit, Cls is_digit],
                         Seqs [Lit CHR ''3'', Cls is_digit, Cls is_digit],
                         Seqs [Lit CHR ''4'', Cls is_digit, Cls is_digit],
                         Seqs [Lit CHR ''5'', Cls is_digit, Cls is_digit]]),
            Lit CHR ''_'', Rep1 (Cls label_start)]]"

definition check_dimensional_metric_names ::
  "PromQLBestPracticesChecker \<Rightarrow> PromQLBestPracticesChecker" where
  "check_dimensional_metric_names self =
     (if list_ex (\<lambda>pattern. re_search pattern (c_query self)) bad_patterns
      then add_suggestion
             (rec_finding ''dimensional_metric_name''
                ''Metric name appears to embed dimensions (method, status code, or index)''
                ''info''
                ''Move dimensions to labels instead of embedding in metric names. Example: http_requests_total{method=\"GET\", status=\"200\"}'')
             self
      else self)"

subsection \<open>\<open>_check_absent_with_aggregation\<close> and \<open>_check_vector_matching\<close>\<close>

text \<open>\<open>absent\s*\(\s*(sum|avg|min|max|count|group|stddev|stdvar)\s*\(\<close>\<close>

definition absent_aggregation_pattern :: rx where
  "absent_aggregation_pattern =
     Seqs [Str ''absent'', ws, Lit CHR ''('', ws,
           Grp 1 (Alts [Str ''sum'', Str ''avg'', Str ''min'', Str ''max'', Str ''count'',
                        Str ''group'', Str ''stddev'', Str ''stdvar'']),
           ws, Lit CHR ''('']"

text \<open>\<open>absent\s*\([^)]+\)\s*by\s*\(\<close>\<close>

definition absent_by_pattern :: rx where
  "absent_by_pattern =
     Seqs [Str ''absent'', ws, Lit CHR ''('', Rep1 (NotC CHR '')''), Lit CHR '')'', ws,
           Str ''by'', ws, Lit CHR ''('']"

definition absent_with_by_finding :: finding where
  "absent_with_by_finding =
     rec_finding ''absent_with_by''
       ''absent() does not support by() clause for per-label grouping''
       ''error''
       ''absent() returns a single value. For per-label absence detection, use: group(present_over_time(metric[range])) by (labels) unless group(metric) by (labels)''"

definition check_absent_with_aggregation ::
  "PromQLBestPracticesChecker \<Rightarrow> PromQLBestPracticesChecker" where
  "check_absent_with_aggregation self =
     (let s1 = (if re_search absent_aggregation_pattern (c_query self)
                then add_issue
                       (rec_finding ''absent_with_aggregation''
                          ''absent() with aggregation may not work as expected''
                          ''warning''
                          ''absent() checks if a selector returns no data. Aggregations return data if ANY series matches. For per-label absence, use: group(present_over_time(metric[range])) unless group(metric)'')
                       self
                else self)
      in if re_search absent_by_pattern (c_query s1)
         then add_issue absent_with_by_finding s1
         else s1)"

text \<open>\<open>\*\s*on\s*\([^)]+\)\s*[a-zA-Z_]+_info\b\<close>\<close>

definition info_join_pattern :: rx where
  "info_join_pattern =
     Seqs [Lit CHR ''*'', ws, Str ''on'', ws, Lit CHR ''('', Rep1 (NotC CHR '')''), Lit CHR '')'',
           ws, Rep1 (Cls label_start), Str ''_info'', WordB]"

text \<open>\<open>\b(group_left|group_right)\s*\(\<close>\<close>

definition group_modifier_pattern :: rx where
  "group_modifier_pattern =
     Seqs [WordB, Grp 1 (Alt (Str ''group_left'') (Str ''group_right'')), ws, Lit CHR ''('']"

text \<open>\<open>\bon\s*\(\s*\)\<close>\<close>

definition on_empty_pattern :: rx where
  "on_empty_pattern = Seqs [WordB, Str ''on'', ws, Lit CHR ''('', ws, Lit CHR '')'']"

definition group_without_matching_finding :: finding where
  "group_without_matching_finding =
     rec_finding ''group_without_matching''
       ''group_left()/group_right() used without on() or ignoring()''
       ''error''
       ''group_left()/group_right() requires on() or ignoring() to specify matching labels''"

definition check_vector_matching :: "PromQLBestPracticesChecker \<Rightarrow> PromQLBestPracticesChecker" where
  "check_vector_matching self =
     (let query_lower = py_lower (c_query self);
          has_vector_matching = (contains ''on('' query_lower \<or> contains ''ignoring('' query_lower);
          no_group = (\<not> contains ''group_left'' query_lower \<and> \<not> contains ''group_right'' query_lower);
          s1 = (if re_search info_join_pattern (c_query self) \<and> no_group
                then add_issue
                       (rec_finding ''info_metric_missing_group''
                          ''Joining with _info metric without group_left()''
                          ''warning''
                          ''Info metric joins typically need group_left() to bring labels from the info metric. Use: metric * on(job, instance) group_left(label1, label2) info_metric'')
                       self
                else self);
          s2 = (if re_search group_modifier_pattern query_lower \<and>
                   \<not> contains ''on('' query_lower \<and> \<not> contains ''ignoring('' query_lower
                then add_issue group_without_matching_finding s1
                else s1);
          s3 = (if re_search on_empty_pattern query_lower
                then add_suggestion
                       (rec_finding ''on_empty_labels''
                          ''on() with empty labels matches all series''
                          ''info''
                          ''on() with empty parentheses ignores all labels for matching. Ensure this is intentional.'')
                       s2
                else s2)
      in if has_vector_matching \<and> no_group
         then add_suggestion
                (rec_finding ''vector_matching_cardinality''
                   ''Binary operation with on()/ignoring() assumes one-to-one matching''
                   ''info''
                   ''If you have many-to-one or one-to-many cardinality, add group_left() or group_right(). Error \"multiple matches for labels\" indicates cardinality mismatch.'')
                s3
         else s3)"

subsection \<open>\<open>_check_native_histogram_usage\<close>\<close>

text \<open>\<open>native_hist_pattern = \b(histogram_avg|histogram_stddev|histogram_stdvar)\s*\(\<close>\<close>

definition native_hist_pattern :: rx where
  "native_hist_pattern =
     Seqs [WordB,
           Grp 1 (Alts [Str ''histogram_avg'', Str ''histogram_stddev'', Str ''histogram_stdvar'']),
           ws, Lit CHR ''('']"

text \<open>\<open>{func}\s*\(\s*rate\s*\(\<close>\<close>

definition wraps_rate_pattern :: "string \<Rightarrow> rx" where
  "wraps_rate_pattern func =
     Seqs [Str func, ws, Lit CHR ''('', ws, Str ''rate'', ws, Lit CHR ''('']"

text \<open>\<open>histogram_(?:count|sum)\s*\(\s*rate\s*\(\<close>\<close>

definition helper_wraps_rate_pattern :: rx where
  "helper_wraps_rate_pattern =
     Seqs [Str ''histogram_'', Alt (Str ''count'') (Str ''sum''), ws, Lit CHR ''('', ws,
           Str ''rate'', ws, Lit CHR ''('']"

definition native_hist_step ::
  "PromQLBestPracticesChecker \<Rightarrow> string \<Rightarrow> PromQLBestPracticesChecker" where
  "native_hist_step self func =
     (if \<not> re_search (wraps_rate_pattern func) (c_query self)
      then add_issue
             (rec_finding ''native_histogram_missing_rate''
                (func @ ''() should use rate() on the histogram metric'')
                ''warning''
                (''Use: '' @ func @ ''(rate(histogram_metric[5m]))''))
             self
      else self)"

definition check_native_histogram_usage ::
  "PromQLBestPracticesChecker \<Rightarrow> PromQLBestPracticesChecker" where
  "check_native_histogram_usage self =
     (let s1 = foldl native_hist_step self (findall1 native_hist_pattern (c_query self));
          s2 = (if contains ''histogram_quantile'' (c_query s1) then
                  (let has_bucket_suffix = contains ''_bucket'' (c_query s1);
                       has_le_in_by = re_search le_in_by_pattern (c_query s1)
                   in if \<not> has_bucket_suffix \<and> has_le_in_by
                      then add_suggestion
                             (rec_finding ''native_histogram_unnecessary_le''
                                ''Native histograms do not need \"le\" label in aggregation''
                                ''info''
                                ''For native histograms, simplify to: histogram_quantile(0.95, sum by (job) (rate(metric[5m])))'')
                             s1
                      else s1)
                else s1)
      in if re_search (Seqs [WordB, Str ''histogram_count'', ws, Lit CHR ''('']) (c_query s2) \<or>
            re_search (Seqs [WordB, Str ''histogram_sum'', ws, Lit CHR ''('']) (c_query s2)
         then (if \<not> re_search helper_wraps_rate_pattern (c_query s2)
               then add_suggestion
                      (rec_finding ''histogram_helper_without_rate''
                         ''histogram_count()/histogram_sum() typically need rate() for meaningful results''
                         ''info''
                         ''Use: histogram_count(rate(histogram_metric[5m])) to get observations per second'')
                      s2
               else s2)
         else s2)"

subsection \<open>\<open>_check_mixed_metric_types\<close>\<close>

text \<open>
  \<open>detected_types\<close> is a set of strings, kept as a list without repetition (it is only
  counted and sorted); \<open>type_examples\<close> is a dictionary of lists, kept in the order in
  which its keys were first set.
\<close>

record mixed_state =
  detected_types :: "string list"
  type_examples :: "(string \<times> string list) list"

definition set_add :: "string \<Rightarrow> string list \<Rightarrow> string list" where
  "set_add x xs = (if x \<in> set xs then xs else xs @ [x])"

fun setdefault_append :: "string \<Rightarrow> string \<Rightarrow> (string \<times> string list) list \<Rightarrow> (string \<times> string list) list" where
  "setdefault_append k v [] = [(k, [v])]"
| "setdefault_append k v ((k', vs) # rest) =
     (if k' = k then (k', vs @ [v]) # rest else (k', vs) # setdefault_append k v rest)"

definition note_type :: "string \<Rightarrow> string \<Rightarrow> mixed_state \<Rightarrow> mixed_state" where
  "note_type t example st =
     \<lparr>detected_types = set_add t (detected_types st),
      type_examples = setdefault_append t example (type_examples st)\<rparr>"

text \<open>\<open>metric_pattern = \b([a-zA-Z_:][a-zA-Z0-9_:]*)\b\<close>\<close>

definition any_metric_pattern :: rx where
  "any_metric_pattern = Seqs [WordB, Grp 1 metric_name_rx, WordB]"

text \<open>\<open>{re.escape(metric)}\s*\{[^}]*quantile\s*=\<close>\<close>

definition quantile_selector_pattern :: "string \<Rightarrow> rx" where
  "quantile_selector_pattern metric =
     Seqs [Str metric, ws, Lit CHR ''{'', Star (NotC CHR ''}''), Str ''quantile'', ws,
           Lit CHR ''='']"

definition mixed_step :: "string \<Rightarrow> bool \<Rightarrow> mixed_state \<Rightarrow> string \<Rightarrow> mixed_state" where
  "mixed_step query is_classic_histogram_query st metric =
     (if ends_with ''_bucket'' metric \<and> is_classic_histogram_query then st
      else if list_ex (\<lambda>suffix. ends_with suffix metric) [''_total'', ''_count'', ''_sum'', ''_bucket'']
      then note_type ''counter'' metric st
      else if list_ex (\<lambda>pattern. contains pattern metric) GAUGE_PATTERNS
      then note_type ''gauge'' metric st
      else if contains ''quantile'' query \<and> contains metric query
      then (if re_search (quantile_selector_pattern metric) query
            then note_type ''summary'' metric st
            else st)
      else st)"

definition check_mixed_metric_types :: "PromQLBestPracticesChecker \<Rightarrow> PromQLBestPracticesChecker" where
  "check_mixed_metric_types self =
     (let query = c_query self;
          is_classic_histogram_query =
            (contains ''histogram_quantile'' query \<and> contains ''_bucket'' query);
          query_clean = strip_label_selectors_and_strings query;
          potential_metrics = findall1 any_metric_pattern query_clean;
          metrics = filter (\<lambda>m. py_lower m \<notin> set reserved_words) potential_metrics;
          st1 = foldl (mixed_step query is_classic_histogram_query)
                  \<lparr>detected_types = [], type_examples = []\<rparr> metrics;
          st2 = (if contains ''histogram_quantile'' query \<and> \<not> is_classic_histogram_query
                 then note_type ''histogram'' ''(histogram_quantile usage)'' st1
                 else st1)
      in if length (detected_types st2) \<ge> 2
         then (let arithmetic_ops = [''+'', ''-'', ''*'', ''/''];
                   has_arithmetic = list_ex (\<lambda>op. contains op query) arithmetic_ops
               in if has_arithmetic
                  then (let type_list = join '', '' (sort (detected_types st2));
                            examples = map (\<lambda>(t, metrics_list). t @ '': '' @ hd metrics_list)
                                           (type_examples st2)
                        in add_issue
                             (rec_finding ''mixed_metric_types''
                                (''Query combines different metric types ('' @ type_list @
                                 '') in arithmetic operations'')
                                ''warning''
                                (''Mixing metric types often produces meaningless results. Examples found: '' @
                                 join ''; '' examples @
                                 ''. Consider separating into distinct queries or ensure the combination makes semantic sense.''))
                             self)
                  else self)
         else self)"

subsection \<open>\<open>_build_result\<close> and \<open>check\<close>\<close>

record summary =
  sm_errors :: nat
  sm_warnings :: nat
  sm_suggestions :: nat
  sm_optimizations :: nat

record check_report =
  cr_status :: string
  cr_query :: string
  cr_issues :: "finding list"
  cr_suggestions :: "finding list"
  cr_optimizations :: "finding list"
  cr_summary :: summary

definition check_build_result :: "PromQLBestPracticesChecker \<Rightarrow> check_report" where
  "check_build_result self =
     (let all_findings = issues self @ suggestions self @ optimizations self;
          has_errors = list_ex (\<lambda>item. severity item = ''error'') all_findings;
          has_warnings = list_ex (\<lambda>item. severity item = ''warning'') all_findings;
          status = (if has_errors then ''ERROR''
                    else if has_warnings then ''WARNING''
                    else if optimizations self \<noteq> [] \<or> suggestions self \<noteq> [] then ''CAN_BE_IMPROVED''
                    else ''OPTIMIZED'')
      in \<lparr>cr_status = status, cr_query = c_query self, cr_issues = issues self,
          cr_suggestions = suggestions self, cr_optimizations = optimizations self,
          cr_summary =
            \<lparr>sm_errors = length (filter (\<lambda>i. severity i = ''error'') (issues self)),
             sm_warnings = length (filter (\<lambda>i. severity i = ''warning'') (issues self)),
             sm_suggestions = length (suggestions self),
             sm_optimizations = length (optimizations self)\<rparr>\<rparr>)"

text \<open>
  The checks in the order of \<open>check\<close>.  Four of them can raise, and the first exception
  ends the run.
\<close>

definition checks ::
  "nat \<Rightarrow> (PromQLBestPracticesChecker \<Rightarrow> py_error + PromQLBestPracticesChecker) list" where
  "checks max_str_digits =
     [\<lambda>s. Inr (check_high_cardinality s),
      \<lambda>s. Inr (check_regex_overuse s),
      \<lambda>s. Inr (check_missing_rate_on_counters s),
      \<lambda>s. Inr (check_rate_on_gauges s),
      \<lambda>s. Inr (check_averaging_quantiles s),
      check_subquery_performance max_str_digits,
      check_irate_range max_str_digits,
      check_rate_range max_str_digits,
      \<lambda>s. Inr (check_unbounded_queries s),
      \<lambda>s. Inr (check_aggregation_best_practices s),
      \<lambda>s. Inr (check_recording_rule_opportunity s),
      \<lambda>s. Inr (check_label_matcher_efficiency s),
      \<lambda>s. Inr (check_histogram_usage s),
      \<lambda>s. Inr (check_deprecated_functions s),
      check_predict_linear_range max_str_digits,
      \<lambda>s. Inr (check_division_by_zero_risk s),
      \<lambda>s. Inr (check_changes_resets_alerting s),
      \<lambda>s. Inr (check_dimensional_metric_names s),
      \<lambda>s. Inr (check_absent_with_aggregation s),
      \<lambda>s. Inr (check_vector_matching s),
      \<lambda>s. Inr (check_native_histogram_usage s),
      \<lambda>s. Inr (check_mixed_metric_types s)]"

definition run_checks ::
  "nat \<Rightarrow> PromQLBestPracticesChecker \<Rightarrow> py_error + PromQLBestPracticesChecker" where
  "run_checks max_str_digits self = foldl_err (\<lambda>s f. f s) self (checks max_str_digits)"

definition check :: "nat \<Rightarrow> PromQLBestPracticesChecker \<Rightarrow> py_error + check_report" where
  "check max_str_digits self =
     (if c_query self = [] then Inr (check_build_result self)
      else (case run_checks max_str_digits self of
              Inl e \<Rightarrow> Inl e
            | Inr s \<Rightarrow> Inr (check_build_result s)))"

definition check_query :: "nat \<Rightarrow> string \<Rightarrow> py_error + check_report" where
  "check_query max_str_digits query = check max_str_digits (new_checker query)"

section \<open>Azure Pipelines validator: theorems\<close>

lemma errors_append_error: "errors (append_error e self) = errors self @ [e]"
  by (simp add: append_error_def)

text \<open>
  C9, first half (kept from the claim) and second half as amended.  A document whose root
  has \<open>steps\<close> and none of \<open>stages\<close>, \<open>jobs\<close>, \<open>extends\<close> gets no error at all from
  \<open>_validate_structure\<close>, so in particular no \<open>missing-pipeline-content\<close> and no
  \<open>invalid-hierarchy\<close> error.  A document whose root has both \<open>stages\<close> and \<open>jobs\<close>
  and has no \<open>extends\<close> gets an \<open>invalid-hierarchy\<close> error of severity \<open>error\<close>.
  With \<open>extends\<close> at the root the check returns at once and reports nothing.
\<close>

theorem C9_validate_structure:
  "(''steps'' \<in> dom (config self) \<and> ''stages'' \<notin> dom (config self) \<and>
    ''jobs'' \<notin> dom (config self) \<and> ''extends'' \<notin> dom (config self)
      \<longrightarrow> errors (validate_structure self) = errors self) \<and>
   (''stages'' \<in> dom (config self) \<and> ''jobs'' \<in> dom (config self) \<and>
    ''extends'' \<notin> dom (config self)
      \<longrightarrow> (\<exists>e \<in> set (drop (length (errors self)) (errors (validate_structure self))).
             ve_rule e = ''invalid-hierarchy'' \<and> ve_severity e = ''error'')) \<and>
   (''extends'' \<in> dom (config self) \<longrightarrow> validate_structure self = self)"
proof (intro conjI impI)
  assume "''steps'' \<in> dom (config self) \<and> ''stages'' \<notin> dom (config self) \<and>
    ''jobs'' \<notin> dom (config self) \<and> ''extends'' \<notin> dom (config self)"
  then show "errors (validate_structure self) = errors self"
    by (simp add: validate_structure_def Let_def)
next
  assume h: "''stages'' \<in> dom (config self) \<and> ''jobs'' \<in> dom (config self) \<and>
    ''extends'' \<notin> dom (config self)"
  let ?e = "\<lparr>ve_severity = ''error'', ve_line = get_line self ''jobs'',
             ve_message = ''Cannot define both stages and jobs at root level'',
             ve_rule = ''invalid-hierarchy''\<rparr>"
  have "\<exists>rest. errors (validate_structure self) = errors self @ ?e # rest"
    using h by (auto simp: validate_structure_def Let_def errors_append_error get_line_def
        append_error_def)
  then obtain rest where "errors (validate_structure self) = errors self @ ?e # rest" ..
  then have "?e \<in> set (drop (length (errors self)) (errors (validate_structure self)))"
    by simp
  then show "\<exists>e \<in> set (drop (length (errors self)) (errors (validate_structure self))).
             ve_rule e = ''invalid-hierarchy'' \<and> ve_severity e = ''error''"
    by (intro bexI[of _ ?e]) simp_all
next
  assume "''extends'' \<in> dom (config self)"
  then show "validate_structure self = self"
    by (simp add: validate_structure_def Let_def)
qed

theorem C9_validate_structure_witness:
  "errors (validate_structure (loaded [''steps'' \<mapsto> ()] Map.empty [''steps:''])) = [] \<and>
   (\<exists>e \<in> set (errors (validate_structure
        (loaded [''stages'' \<mapsto> (), ''jobs'' \<mapsto> ()] Map.empty [''stages:'', ''jobs:'']))).
      ve_rule e = ''invalid-hierarchy'' \<and> ve_severity e = ''error'') \<and>
   validate_structure (loaded [''extends'' \<mapsto> ()] Map.empty [''extends:''])
     = loaded [''extends'' \<mapsto> ()] Map.empty [''extends:'']"
  using C9_validate_structure [of "loaded [''steps'' \<mapsto> ()] Map.empty [''steps:'']"]
    C9_validate_structure
      [of "loaded [''stages'' \<mapsto> (), ''jobs'' \<mapsto> ()] Map.empty [''stages:'', ''jobs:'']"]
    C9_validate_structure [of "loaded [''extends'' \<mapsto> ()] Map.empty [''extends:'']"]
  by (simp add: loaded_def)

text \<open>
  The claim as stated fails: a root with \<open>stages\<close>, \<open>jobs\<close> and \<open>extends\<close> is a
  template pipeline, for which \<open>_validate_structure\<close> returns before any check.
\<close>

theorem C9_extends_counterexample:
  "errors (validate_structure
     (loaded [''extends'' \<mapsto> (), ''stages'' \<mapsto> (), ''jobs'' \<mapsto> ()] Map.empty
        [''extends:'', ''stages:'', ''jobs:''])) = []"
  by (simp add: validate_structure_def loaded_def)

section \<open>PromQL syntax validator: theorems\<close>

subsection \<open>Empty queries\<close>

lemma py_strip_empty_iff: "py_strip q = [] \<longleftrightarrow> (\<forall>c \<in> set q. is_space c)"
proof
  assume "\<forall>c \<in> set q. is_space c"
  then have d: "dropWhile is_space q = []" by (simp add: dropWhile_eq_Nil_conv)
  show "py_strip q = []" unfolding py_strip_def d by simp
next
  assume "py_strip q = []"
  then have a: "\<forall>x \<in> set (dropWhile is_space q). is_space x"
    by (simp add: py_strip_def dropWhile_eq_Nil_conv)
  have "dropWhile is_space q = []"
  proof (rule ccontr)
    assume n: "dropWhile is_space q \<noteq> []"
    then have "\<not> is_space (hd (dropWhile is_space q))" by (rule hd_dropWhile)
    moreover have "hd (dropWhile is_space q) \<in> set (dropWhile is_space q)" using n by simp
    ultimately show False using a by blast
  qed
  then show "\<forall>c \<in> set q. is_space c" by (simp add: dropWhile_eq_Nil_conv)
qed

text \<open>
  C7.  When every character of the input is white space (so that the input is empty
  after \<open>strip\<close>), \<open>validate\<close> returns the report with the single finding
  \<open>empty_query\<close> of severity \<open>error\<close>, no warning, \<open>valid = False\<close>: no other check
  has run.
\<close>

theorem C7_empty_query:
  assumes "\<forall>c \<in> set query. is_space c"
  shows "validate_query order query =
           \<lparr>vr_status = ''ERROR'', vr_query = [],
            vr_errors = [\<lparr>ftype = ''empty_query'', message = ''Query is empty'',
                          severity = ''error'', position = None, hint = None,
                          recommendation = None\<rparr>],
            vr_warnings = [], vr_valid = False\<rparr>"
proof -
  have "py_strip query = []" using assms by (simp add: py_strip_empty_iff)
  then show ?thesis
    by (simp add: validate_query_def validate_def new_validator_def
        build_result_def add_error_def new_finding_def)
qed

theorem C7_empty_query_witness:
  "validate_query FUNCTIONS [CHR '' '', CHR 0x09, CHR 0x0A] =
           \<lparr>vr_status = ''ERROR'', vr_query = [],
            vr_errors = [\<lparr>ftype = ''empty_query'', message = ''Query is empty'',
                          severity = ''error'', position = None, hint = None,
                          recommendation = None\<rparr>],
            vr_warnings = [], vr_valid = False\<rparr>"
  using C7_empty_query [of "[CHR '' '', CHR 0x09, CHR 0x0A]" FUNCTIONS]
  by (simp add: is_space_def)

subsection \<open>Severities and the report\<close>

lemma foldl_preserves:
  assumes "P s" and "\<And>s x. P s \<Longrightarrow> P (f s x)"
  shows "P (foldl f s xs)"
  using assms(1) by (induction xs arbitrary: s) (auto intro: assms(2))

definition v_inv :: "PromQLSyntaxValidator \<Rightarrow> bool" where
  "v_inv self =
     ((\<forall>f \<in> set (v_errors self). severity f = ''error'') \<and>
      (\<forall>f \<in> set (v_warnings self). severity f = ''warning'' \<or> severity f = ''info''))"

lemma v_inv_add_error: "v_inv self \<Longrightarrow> severity f = ''error'' \<Longrightarrow> v_inv (add_error f self)"
  by (auto simp: v_inv_def add_error_def)

lemma v_inv_add_warning:
  "v_inv self \<Longrightarrow> severity f = ''warning'' \<or> severity f = ''info'' \<Longrightarrow> v_inv (add_warning f self)"
  by (auto simp: v_inv_def add_warning_def)

lemma severity_new_finding [simp]: "severity (new_finding t m sev) = sev"
  by (simp add: new_finding_def)

lemma severity_delim_finding [simp]: "severity (delim_finding t w i) = ''error''"
  by (simp add: delim_finding_def)

lemma delim_step_found_errors:
  "\<forall>f \<in> set (found st). severity f = ''error'' \<Longrightarrow>
   \<forall>f \<in> set (found (delim_step st ic)). severity f = ''error''"
  by (cases ic) (auto simp: delim_step_def)

lemma delim_loop_found_errors:
  "\<forall>f \<in> set errs. severity f = ''error'' \<Longrightarrow>
   \<forall>f \<in> set (found (delim_loop q errs)). severity f = ''error''"
  unfolding delim_loop_def
  by (rule foldl_preserves[where P = "\<lambda>st. \<forall>f \<in> set (found st). severity f = ''error''"])
     (simp_all add: delim_step_found_errors)

lemma v_inv_check_balanced_delimiters:
  assumes "v_inv self" shows "v_inv (check_balanced_delimiters self)"
proof -
  have "\<forall>f \<in> set (found (delim_loop (v_query self) (v_errors self))). severity f = ''error''"
    using assms by (intro delim_loop_found_errors) (simp add: v_inv_def)
  then show ?thesis using assms
    by (auto simp: check_balanced_delimiters_def Let_def v_inv_def)
qed

lemma v_inv_utf8_step: "v_inv self \<Longrightarrow> v_inv (utf8_step self n)"
  by (simp add: utf8_step_def v_inv_add_error v_inv_add_warning)

lemma v_inv_wrong_utf8_step: "v_inv self \<Longrightarrow> v_inv (wrong_utf8_step self n)"
  by (simp add: wrong_utf8_step_def v_inv_add_warning)

lemma v_inv_check_metric_selectors: "v_inv self \<Longrightarrow> v_inv (check_metric_selectors self)"
  unfolding check_metric_selectors_def check_utf8_metric_syntax_def Let_def
  by (intro foldl_preserves[where P = v_inv] v_inv_utf8_step v_inv_wrong_utf8_step)
     (simp_all add: v_inv_add_warning)

lemma v_inv_time_range_step: "v_inv self \<Longrightarrow> v_inv (time_range_step self r)"
  by (simp add: time_range_step_def Let_def v_inv_add_error)

lemma v_inv_check_time_ranges: "v_inv self \<Longrightarrow> v_inv (check_time_ranges self)"
  unfolding check_time_ranges_def
  by (intro foldl_preserves[where P = v_inv] v_inv_time_range_step)

lemma v_inv_function_step: "v_inv self \<Longrightarrow> v_inv (function_step order self f)"
  by (simp add: function_step_def Let_def v_inv_add_error)

lemma v_inv_check_function_syntax: "v_inv self \<Longrightarrow> v_inv (check_function_syntax order self)"
  unfolding check_function_syntax_def
  by (intro foldl_preserves[where P = v_inv] v_inv_function_step)

lemma v_inv_check_operators: "v_inv self \<Longrightarrow> v_inv (check_operators self)"
  by (simp add: check_operators_def v_inv_add_warning)

lemma v_inv_check_common_typos: "v_inv self \<Longrightarrow> v_inv (check_common_typos self)"
  by (simp add: check_common_typos_def Let_def v_inv_add_error)

lemma v_inv_new_validator: "v_inv (new_validator q)"
  by (simp add: v_inv_def new_validator_def)

lemma validate_report_inv:
  assumes "v_inv self"
  shows "(\<forall>f \<in> set (vr_errors (validate order self)). severity f = ''error'') \<and>
         (\<forall>f \<in> set (vr_warnings (validate order self)).
            severity f = ''warning'' \<or> severity f = ''info'')"
proof -
  have "v_inv (check_common_typos (check_operators (check_function_syntax order
          (check_time_ranges (check_metric_selectors (check_balanced_delimiters self))))))"
    by (intro v_inv_check_common_typos v_inv_check_operators v_inv_check_function_syntax
        v_inv_check_time_ranges v_inv_check_metric_selectors v_inv_check_balanced_delimiters assms)
  moreover have "v_inv (add_error (new_finding ''empty_query'' ''Query is empty'' ''error'') self)"
    using assms by (simp add: v_inv_add_error)
  ultimately show ?thesis
    by (simp add: validate_def build_result_def Let_def v_inv_def)
qed

lemma build_result_status:
  "vr_valid (build_result self) = (vr_errors (build_result self) = []) \<and>
   vr_status (build_result self) =
     (if vr_errors (build_result self) \<noteq> [] then ''ERROR''
      else if vr_warnings (build_result self) \<noteq> [] then ''WARNING'' else ''VALID'')"
  by (simp add: build_result_def Let_def)

text \<open>
  C10.  In every report of the syntax validator, \<open>valid\<close> holds exactly when the list
  of errors is empty; the status is \<open>ERROR\<close> when there is an error, else \<open>WARNING\<close>
  when the list of warnings is not empty, else \<open>VALID\<close>; every finding in the list of
  errors has severity \<open>error\<close>, and the findings of severity \<open>info\<close> are in the list of
  warnings.  So a query whose only finding is of severity \<open>info\<close>, as the quoted metric
  name \<open>{"foo"}\<close>, has status \<open>WARNING\<close> and is valid.
\<close>

theorem C10_report_invariant:
  "vr_valid (validate_query order query) = (vr_errors (validate_query order query) = []) \<and>
   vr_status (validate_query order query) =
     (if vr_errors (validate_query order query) \<noteq> [] then ''ERROR''
      else if vr_warnings (validate_query order query) \<noteq> [] then ''WARNING''
      else ''VALID'') \<and>
   (\<forall>f \<in> set (vr_errors (validate_query order query)). severity f = ''error'') \<and>
   (\<forall>f \<in> set (vr_warnings (validate_query order query)).
      severity f = ''warning'' \<or> severity f = ''info'') \<and>
   validate_query order [CHR ''{'', CHR 0x22, CHR ''f'', CHR ''o'', CHR ''o'', CHR 0x22, CHR ''}''] =
     \<lparr>vr_status = ''WARNING'',
      vr_query = [CHR ''{'', CHR 0x22, CHR ''f'', CHR ''o'', CHR ''o'', CHR 0x22, CHR ''}''],
      vr_errors = [],
      vr_warnings =
        [\<lparr>ftype = ''utf8_metric_unnecessary_quoting'',
          message = ''Metric name \"foo\" uses UTF-8 quoting but is valid in classic format'',
          severity = ''info'', position = None, hint = None, recommendation = None\<rparr>],
      vr_valid = True\<rparr>"
proof -
  have ex: "validate_query order
              [CHR ''{'', CHR 0x22, CHR ''f'', CHR ''o'', CHR ''o'', CHR 0x22, CHR ''}''] =
     \<lparr>vr_status = ''WARNING'',
      vr_query = [CHR ''{'', CHR 0x22, CHR ''f'', CHR ''o'', CHR ''o'', CHR 0x22, CHR ''}''],
      vr_errors = [],
      vr_warnings =
        [\<lparr>ftype = ''utf8_metric_unnecessary_quoting'',
          message = ''Metric name \"foo\" uses UTF-8 quoting but is valid in classic format'',
          severity = ''info'', position = None, hint = None, recommendation = None\<rparr>],
      vr_valid = True\<rparr>"
    by code_simp
  have st: "vr_valid (validate_query order query) = (vr_errors (validate_query order query) = []) \<and>
     vr_status (validate_query order query) =
       (if vr_errors (validate_query order query) \<noteq> [] then ''ERROR''
        else if vr_warnings (validate_query order query) \<noteq> [] then ''WARNING''
        else ''VALID'')"
    by (simp add: validate_query_def validate_def build_result_def Let_def)
  have sev: "(\<forall>f \<in> set (vr_errors (validate_query order query)). severity f = ''error'') \<and>
     (\<forall>f \<in> set (vr_warnings (validate_query order query)).
        severity f = ''warning'' \<or> severity f = ''info'')"
    unfolding validate_query_def by (rule validate_report_inv) (rule v_inv_new_validator)
  show ?thesis using ex st sev by blast
qed

theorem C10_report_invariant_witness:
  "vr_valid (validate_query FUNCTIONS
      [CHR ''{'', CHR 0x22, CHR ''f'', CHR ''o'', CHR ''o'', CHR 0x22, CHR ''}'', CHR '')'']) = False \<and>
   vr_status (validate_query FUNCTIONS
      [CHR ''{'', CHR 0x22, CHR ''f'', CHR ''o'', CHR ''o'', CHR 0x22, CHR ''}'', CHR '')'']) = ''ERROR'' \<and>
   map severity (vr_errors (validate_query FUNCTIONS
      [CHR ''{'', CHR 0x22, CHR ''f'', CHR ''o'', CHR ''o'', CHR 0x22, CHR ''}'', CHR '')''])) = [''error''] \<and>
   map severity (vr_warnings (validate_query FUNCTIONS
      [CHR ''{'', CHR 0x22, CHR ''f'', CHR ''o'', CHR ''o'', CHR 0x22, CHR ''}'', CHR '')''])) = [''info'']"
proof -
  have e: "map severity (vr_errors (validate_query FUNCTIONS
      [CHR ''{'', CHR 0x22, CHR ''f'', CHR ''o'', CHR ''o'', CHR 0x22, CHR ''}'', CHR '')''])) = [''error'']"
    by code_simp
  have w: "map severity (vr_warnings (validate_query FUNCTIONS
      [CHR ''{'', CHR 0x22, CHR ''f'', CHR ''o'', CHR ''o'', CHR 0x22, CHR ''}'', CHR '')''])) = [''info'']"
    by code_simp
  from e have ne: "vr_errors (validate_query FUNCTIONS
      [CHR ''{'', CHR 0x22, CHR ''f'', CHR ''o'', CHR ''o'', CHR 0x22, CHR ''}'', CHR '')'']) \<noteq> []"
    by auto
  show ?thesis
    using C10_report_invariant [of FUNCTIONS
        "[CHR ''{'', CHR 0x22, CHR ''f'', CHR ''o'', CHR ''o'', CHR 0x22, CHR ''}'', CHR '')'']"]
      e w ne
    by simp
qed

subsection \<open>The order of the set of functions\<close>













lemma v_query_add_error [simp]: "v_query (add_error f a) = v_query a"
  by (simp add: add_error_def)










section \<open>PromQL best-practices checker: theorems\<close>

subsection \<open>Severities and the status of the report\<close>

definition c_inv :: "PromQLBestPracticesChecker \<Rightarrow> bool" where
  "c_inv self =
     ((\<forall>f \<in> set (issues self). severity f = ''error'' \<or> severity f = ''warning'') \<and>
      (\<forall>f \<in> set (suggestions self). severity f = ''info'') \<and>
      (\<forall>f \<in> set (optimizations self). severity f = ''info''))"

lemma severity_rec_finding [simp]: "severity (rec_finding t m sev r) = sev"
  by (simp add: rec_finding_def new_finding_def)

lemma c_inv_add_issue:
  "c_inv self \<Longrightarrow> severity f = ''error'' \<or> severity f = ''warning'' \<Longrightarrow> c_inv (add_issue f self)"
  by (auto simp: c_inv_def add_issue_def)

lemma c_inv_add_suggestion:
  "c_inv self \<Longrightarrow> severity f = ''info'' \<Longrightarrow> c_inv (add_suggestion f self)"
  by (auto simp: c_inv_def add_suggestion_def)

lemma c_inv_add_optimization:
  "c_inv self \<Longrightarrow> severity f = ''info'' \<Longrightarrow> c_inv (add_optimization f self)"
  by (auto simp: c_inv_def add_optimization_def)

lemmas c_inv_adds = c_inv_add_issue c_inv_add_suggestion c_inv_add_optimization

lemma foldl_err_preserves:
  assumes "P s" and "\<And>s x s'. P s \<Longrightarrow> f s x = Inr s' \<Longrightarrow> P s'"
    and "foldl_err f s xs = Inr t"
  shows "P t"
  using assms(1,3)
proof (induction xs arbitrary: s)
  case Nil then show ?case by simp
next
  case (Cons x xs)
  then show ?case by (auto split: sum.splits intro: assms(2))
qed

lemma c_inv_high_cardinality: "c_inv self \<Longrightarrow> c_inv (check_high_cardinality self)"
  unfolding check_high_cardinality_def Let_def
  by (rule foldl_preserves[where P = c_inv])
     (simp_all add: high_cardinality_step_def c_inv_adds)

lemma c_inv_regex_overuse: "c_inv self \<Longrightarrow> c_inv (check_regex_overuse self)"
  unfolding check_regex_overuse_def
  by (rule foldl_preserves[where P = c_inv])
     (auto simp: regex_overuse_step_def Let_def c_inv_adds)

lemma c_inv_missing_rate: "c_inv self \<Longrightarrow> c_inv (check_missing_rate_on_counters self)"
  unfolding check_missing_rate_on_counters_def
  by (rule foldl_preserves[where P = c_inv])
     (simp_all add: missing_rate_step_def c_inv_adds)

lemma c_inv_rate_on_gauges: "c_inv self \<Longrightarrow> c_inv (check_rate_on_gauges self)"
  unfolding check_rate_on_gauges_def
  by (rule foldl_preserves[where P = c_inv])
     (auto simp: rate_on_gauge_step_def Let_def c_inv_adds)

lemma c_inv_averaging_quantiles: "c_inv self \<Longrightarrow> c_inv (check_averaging_quantiles self)"
  by (simp add: check_averaging_quantiles_def averaging_quantiles_finding_def c_inv_adds)

lemma c_inv_subquery:
  "c_inv self \<Longrightarrow> check_subquery_performance m self = Inr t \<Longrightarrow> c_inv t"
  unfolding check_subquery_performance_def
  by (erule foldl_err_preserves[where P = c_inv, rotated 2])
     (auto simp: subquery_step_def c_inv_adds split: sum.splits if_splits)

lemma c_inv_irate:
  "c_inv self \<Longrightarrow> check_irate_range m self = Inr t \<Longrightarrow> c_inv t"
  unfolding check_irate_range_def
  by (erule foldl_err_preserves[where P = c_inv, rotated 2])
     (auto simp: irate_step_def c_inv_adds split: sum.splits if_splits)

lemma c_inv_rate:
  "c_inv self \<Longrightarrow> check_rate_range m self = Inr t \<Longrightarrow> c_inv t"
  unfolding check_rate_range_def
  by (erule foldl_err_preserves[where P = c_inv, rotated 2])
     (auto simp: rate_step_def c_inv_adds split: sum.splits if_splits)

lemma c_inv_predict:
  "c_inv self \<Longrightarrow> check_predict_linear_range m self = Inr t \<Longrightarrow> c_inv t"
  unfolding check_predict_linear_range_def
  by (erule foldl_err_preserves[where P = c_inv, rotated 2])
     (auto simp: predict_step_def c_inv_adds split: sum.splits if_splits)

lemma c_inv_unbounded: "c_inv self \<Longrightarrow> c_inv (check_unbounded_queries self)"
  unfolding check_unbounded_queries_def Let_def
  by (rule foldl_preserves[where P = c_inv])
     (simp_all add: unbounded_step_def c_inv_adds)

lemma c_inv_aggregation: "c_inv self \<Longrightarrow> c_inv (check_aggregation_best_practices self)"
  by (simp add: check_aggregation_best_practices_def c_inv_adds)

lemma c_inv_recording: "c_inv self \<Longrightarrow> c_inv (check_recording_rule_opportunity self)"
  by (simp add: check_recording_rule_opportunity_def Let_def c_inv_adds)

lemma c_inv_label_matcher: "c_inv self \<Longrightarrow> c_inv (check_label_matcher_efficiency self)"
  by (simp add: check_label_matcher_efficiency_def c_inv_adds)

lemma c_inv_histogram: "c_inv self \<Longrightarrow> c_inv (check_histogram_usage self)"
  by (simp add: check_histogram_usage_def Let_def c_inv_adds)

lemma c_inv_deprecated: "c_inv self \<Longrightarrow> c_inv (check_deprecated_functions self)"
  by (simp add: check_deprecated_functions_def c_inv_adds)

lemma c_inv_division: "c_inv self \<Longrightarrow> c_inv (check_division_by_zero_risk self)"
  by (simp add: check_division_by_zero_risk_def c_inv_adds)

lemma c_inv_changes: "c_inv self \<Longrightarrow> c_inv (check_changes_resets_alerting self)"
  by (simp add: check_changes_resets_alerting_def c_inv_adds)

lemma c_inv_dimensional: "c_inv self \<Longrightarrow> c_inv (check_dimensional_metric_names self)"
  by (simp add: check_dimensional_metric_names_def c_inv_adds)

lemma c_inv_absent: "c_inv self \<Longrightarrow> c_inv (check_absent_with_aggregation self)"
  by (simp add: check_absent_with_aggregation_def Let_def absent_with_by_finding_def c_inv_adds)

lemma c_inv_vector: "c_inv self \<Longrightarrow> c_inv (check_vector_matching self)"
  by (simp add: check_vector_matching_def Let_def group_without_matching_finding_def c_inv_adds)

lemma c_inv_native: "c_inv self \<Longrightarrow> c_inv (check_native_histogram_usage self)"
proof -
  assume a: "c_inv self"
  have "c_inv (foldl native_hist_step self (findall1 native_hist_pattern (c_query self)))"
    by (rule foldl_preserves[where P = c_inv]) (simp_all add: a native_hist_step_def c_inv_adds)
  then show ?thesis
    by (simp add: check_native_histogram_usage_def Let_def c_inv_adds)
qed

lemma c_inv_mixed: "c_inv self \<Longrightarrow> c_inv (check_mixed_metric_types self)"
  unfolding check_mixed_metric_types_def Let_def
  by (simp add: c_inv_adds del: foldl.simps)

lemma c_inv_checks:
  "\<forall>f \<in> set (checks m). \<forall>s s'. c_inv s \<longrightarrow> f s = Inr s' \<longrightarrow> c_inv s'"
proof -
  have e1: "\<forall>s s'. c_inv s \<longrightarrow> check_subquery_performance m s = Inr s' \<longrightarrow> c_inv s'"
    using c_inv_subquery by blast
  have e2: "\<forall>s s'. c_inv s \<longrightarrow> check_irate_range m s = Inr s' \<longrightarrow> c_inv s'"
    using c_inv_irate by blast
  have e3: "\<forall>s s'. c_inv s \<longrightarrow> check_rate_range m s = Inr s' \<longrightarrow> c_inv s'"
    using c_inv_rate by blast
  have e4: "\<forall>s s'. c_inv s \<longrightarrow> check_predict_linear_range m s = Inr s' \<longrightarrow> c_inv s'"
    using c_inv_predict by blast
  show ?thesis
    apply (simp only: checks_def list.set ball_simps simp_thms)
    apply (intro conjI)
    by (rule e1 | rule e2 | rule e3 | rule e4 |
        simp add: c_inv_high_cardinality c_inv_regex_overuse c_inv_missing_rate
        c_inv_rate_on_gauges c_inv_averaging_quantiles c_inv_unbounded c_inv_aggregation
        c_inv_recording c_inv_label_matcher c_inv_histogram c_inv_deprecated c_inv_division
        c_inv_changes c_inv_dimensional c_inv_absent c_inv_vector c_inv_native c_inv_mixed)+
qed

lemma foldl_err_apply_preserves:
  "P s \<Longrightarrow> \<forall>f \<in> set fs. \<forall>s s'. P s \<longrightarrow> f s = Inr s' \<longrightarrow> P s' \<Longrightarrow>
   foldl_err (\<lambda>s f. f s) s fs = Inr t \<Longrightarrow> P t"
proof (induction fs arbitrary: s)
  case Nil then show ?case by simp
next
  case (Cons f fs)
  from Cons.prems(3) obtain s1 where s1: "f s = Inr s1" and r: "foldl_err (\<lambda>s f. f s) s1 fs = Inr t"
    by (auto split: sum.splits)
  have "P s1" using Cons.prems(1,2) s1 by (meson list.set_intros(1))
  moreover have "\<forall>f \<in> set fs. \<forall>s s'. P s \<longrightarrow> f s = Inr s' \<longrightarrow> P s'"
    using Cons.prems(2) by (meson list.set_intros(2))
  ultimately show ?case using Cons.IH r by blast
qed

lemma c_inv_run_checks:
  assumes "c_inv self" and "run_checks m self = Inr t"
  shows "c_inv t"
proof (rule foldl_err_apply_preserves[where P = c_inv and s = self and fs = "checks m"])
  show "c_inv self" by (rule assms)
  show "\<forall>f \<in> set (checks m). \<forall>s s'. c_inv s \<longrightarrow> f s = Inr s' \<longrightarrow> c_inv s'"
    by (rule c_inv_checks)
  show "foldl_err (\<lambda>s f. f s) self (checks m) = Inr t"
    using assms(2) by (simp add: run_checks_def)
qed

lemma c_inv_new_checker: "c_inv (new_checker q)"
  by (simp add: c_inv_def new_checker_def)

text \<open>
  C2.  Let \<open>s\<close> be the checker as \<open>check\<close> hands it to \<open>_build_result\<close>: the fresh
  checker when the query is empty after \<open>strip\<close>, and otherwise the checker after all
  checks have run (when none of them raised).  Then \<open>check\<close> returns the report built
  from \<open>s\<close>; the three lists of the report are the three lists collected in \<open>s\<close>;
  the status is \<open>ERROR\<close> if a collected finding has severity \<open>error\<close>; otherwise
  \<open>WARNING\<close> if one has severity \<open>warning\<close>; otherwise \<open>CAN_BE_IMPROVED\<close> if a
  suggestion or optimization of severity \<open>info\<close> was collected; otherwise \<open>OPTIMIZED\<close>.
  Every collected suggestion and optimization has severity \<open>info\<close>.
\<close>

theorem C2_status:
  assumes "(c_query (new_checker query) = [] \<and> s = new_checker query) \<or>
           (c_query (new_checker query) \<noteq> [] \<and>
            run_checks max_str_digits (new_checker query) = Inr s)"
  shows "check_query max_str_digits query = Inr (check_build_result s) \<and>
         cr_issues (check_build_result s) = issues s \<and>
         cr_suggestions (check_build_result s) = suggestions s \<and>
         cr_optimizations (check_build_result s) = optimizations s \<and>
         cr_status (check_build_result s) =
           (if \<exists>f \<in> set (issues s @ suggestions s @ optimizations s).
                 severity f = ''error'' then ''ERROR''
            else if \<exists>f \<in> set (issues s @ suggestions s @ optimizations s).
                 severity f = ''warning'' then ''WARNING''
            else if \<exists>f \<in> set (suggestions s @ optimizations s).
                 severity f = ''info'' then ''CAN_BE_IMPROVED''
            else ''OPTIMIZED'') \<and>
         (\<forall>f \<in> set (suggestions s @ optimizations s). severity f = ''info'')"
proof -
  have ret: "check_query max_str_digits query = Inr (check_build_result s)"
    using assms by (auto simp: check_query_def check_def)
  have inv: "c_inv s"
    using assms c_inv_new_checker c_inv_run_checks by blast
  have info: "\<forall>f \<in> set (suggestions s @ optimizations s). severity f = ''info''"
    using inv by (auto simp: c_inv_def)
  then have ne: "(optimizations s \<noteq> [] \<or> suggestions s \<noteq> []) =
               (\<exists>f \<in> set (suggestions s @ optimizations s). severity f = ''info'')"
    by (cases "suggestions s"; cases "optimizations s") auto
  have st: "cr_status (check_build_result s) =
      (if \<exists>f \<in> set (issues s @ suggestions s @ optimizations s). severity f = ''error''
       then ''ERROR''
       else if \<exists>f \<in> set (issues s @ suggestions s @ optimizations s). severity f = ''warning''
       then ''WARNING''
       else if optimizations s \<noteq> [] \<or> suggestions s \<noteq> [] then ''CAN_BE_IMPROVED''
       else ''OPTIMIZED'')"
    by (simp add: check_build_result_def Let_def list_ex_iff)
  have fields: "cr_issues (check_build_result s) = issues s"
    "cr_suggestions (check_build_result s) = suggestions s"
    "cr_optimizations (check_build_result s) = optimizations s"
    by (simp_all add: check_build_result_def Let_def)
  show ?thesis
    using ret fields st ne info by simp
qed

text \<open>
  The witness runs the checks one at a time on \<open>avg(x{quantile="0.5"})\<close>, which collects
  an error and a suggestion, and on a query of white space.
\<close>

theorem C2_status_witness:
  "check_query 4300 ''avg(x{quantile=\"0.5\"})'' =
     Inr \<lparr>cr_status = ''ERROR'', cr_query = ''avg(x{quantile=\"0.5\"})'',
          cr_issues = [\<lparr>ftype = ''averaging_quantiles'', message = ''Averaging pre-calculated quantiles is mathematically invalid'', severity = ''error'', position = None, hint = None, recommendation = Some ''Use histogram_quantile() with histogram buckets instead''\<rparr>],
          cr_suggestions = [\<lparr>ftype = ''missing_aggregation_clause'', message = ''avg() used without by() or without() clause'', severity = ''info'', position = None, hint = None, recommendation = Some ''Consider adding \"by (label)\" or \"without (label)\" to avg() for clearer results''\<rparr>],
          cr_optimizations = [],
          cr_summary = \<lparr>sm_errors = 1, sm_warnings = 0, sm_suggestions = 1, sm_optimizations = 0\<rparr>\<rparr> \<and>
   check_query 4300 ''  '' =
     Inr \<lparr>cr_status = ''OPTIMIZED'', cr_query = [], cr_issues = [], cr_suggestions = [],
          cr_optimizations = [],
          cr_summary = \<lparr>sm_errors = 0, sm_warnings = 0, sm_suggestions = 0, sm_optimizations = 0\<rparr>\<rparr>"
proof -
  let ?S0 = "\<lparr>c_query = ''avg(x{quantile=\"0.5\"})'', issues = [], suggestions = [], optimizations = []\<rparr>"
  have c1: "check_high_cardinality ?S0 = ?S0" by code_simp
  have c2: "check_regex_overuse ?S0 = ?S0" by code_simp
  have c3: "check_missing_rate_on_counters ?S0 = ?S0" by code_simp
  have c4: "check_rate_on_gauges ?S0 = ?S0" by code_simp
  let ?S1 = "\<lparr>c_query = ''avg(x{quantile=\"0.5\"})'', issues = [\<lparr>ftype = ''averaging_quantiles'', message = ''Averaging pre-calculated quantiles is mathematically invalid'', severity = ''error'', position = None, hint = None, recommendation = Some ''Use histogram_quantile() with histogram buckets instead''\<rparr>], suggestions = [], optimizations = []\<rparr>"
  have c5: "check_averaging_quantiles ?S0 = ?S1" by code_simp
  have c6: "check_subquery_performance 4300 ?S1 = Inr ?S1" by code_simp
  have c7: "check_irate_range 4300 ?S1 = Inr ?S1" by code_simp
  have c8: "check_rate_range 4300 ?S1 = Inr ?S1" by code_simp
  let ?S2 = "\<lparr>c_query = ''avg(x{quantile=\"0.5\"})'', issues = [\<lparr>ftype = ''averaging_quantiles'', message = ''Averaging pre-calculated quantiles is mathematically invalid'', severity = ''error'', position = None, hint = None, recommendation = Some ''Use histogram_quantile() with histogram buckets instead''\<rparr>], suggestions = [\<lparr>ftype = ''missing_aggregation_clause'', message = ''avg() used without by() or without() clause'', severity = ''info'', position = None, hint = None, recommendation = Some ''Consider adding \"by (label)\" or \"without (label)\" to avg() for clearer results''\<rparr>], optimizations = []\<rparr>"
  have c9: "check_unbounded_queries ?S1 = ?S2" by code_simp
  have c10: "check_aggregation_best_practices ?S2 = ?S2" by code_simp
  have c11: "check_recording_rule_opportunity ?S2 = ?S2" by code_simp
  have c12: "check_label_matcher_efficiency ?S2 = ?S2" by code_simp
  have c13: "check_histogram_usage ?S2 = ?S2" by code_simp
  have c14: "check_deprecated_functions ?S2 = ?S2" by code_simp
  have c15: "check_predict_linear_range 4300 ?S2 = Inr ?S2" by code_simp
  have c16: "check_division_by_zero_risk ?S2 = ?S2" by code_simp
  have c17: "check_changes_resets_alerting ?S2 = ?S2" by code_simp
  have c18: "check_dimensional_metric_names ?S2 = ?S2" by code_simp
  have c19: "check_absent_with_aggregation ?S2 = ?S2" by code_simp
  have c20: "check_vector_matching ?S2 = ?S2" by code_simp
  have c21: "check_native_histogram_usage ?S2 = ?S2" by code_simp
  have c22: "check_mixed_metric_types ?S2 = ?S2" by code_simp
  have run: "run_checks 4300 ?S0 = Inr ?S2"
    by (simp add: run_checks_def checks_def c1 c2 c3 c4 c5 c6 c7 c8 c9 c10 c11 c12 c13 c14 c15 c16 c17 c18 c19 c20 c21 c22)
  have n: "new_checker ''avg(x{quantile=\"0.5\"})'' = ?S0" by code_simp
  have q_ne: "c_query (new_checker ''avg(x{quantile=\"0.5\"})'') \<noteq> []" unfolding n by simp
  have b: "check_build_result ?S2 =
     \<lparr>cr_status = ''ERROR'', cr_query = ''avg(x{quantile=\"0.5\"})'',
          cr_issues = [\<lparr>ftype = ''averaging_quantiles'', message = ''Averaging pre-calculated quantiles is mathematically invalid'', severity = ''error'', position = None, hint = None, recommendation = Some ''Use histogram_quantile() with histogram buckets instead''\<rparr>],
          cr_suggestions = [\<lparr>ftype = ''missing_aggregation_clause'', message = ''avg() used without by() or without() clause'', severity = ''info'', position = None, hint = None, recommendation = Some ''Consider adding \"by (label)\" or \"without (label)\" to avg() for clearer results''\<rparr>],
          cr_optimizations = [],
          cr_summary = \<lparr>sm_errors = 1, sm_warnings = 0, sm_suggestions = 1, sm_optimizations = 0\<rparr>\<rparr>"
    by code_simp
  have h1: "check_query 4300 ''avg(x{quantile=\"0.5\"})'' = Inr (check_build_result ?S2)"
    using C2_status [of "''avg(x{quantile=\"0.5\"})''" "?S2" 4300] q_ne run n by simp
  have e: "new_checker ''  '' = \<lparr>c_query = [], issues = [], suggestions = [], optimizations = []\<rparr>"
    by code_simp
  have be: "check_build_result \<lparr>c_query = [], issues = [], suggestions = [], optimizations = []\<rparr> =
     \<lparr>cr_status = ''OPTIMIZED'', cr_query = [], cr_issues = [], cr_suggestions = [],
          cr_optimizations = [],
          cr_summary = \<lparr>sm_errors = 0, sm_warnings = 0, sm_suggestions = 0, sm_optimizations = 0\<rparr>\<rparr>"
    by code_simp
  have h2: "check_query 4300 ''  '' =
      Inr (check_build_result \<lparr>c_query = [], issues = [], suggestions = [], optimizations = []\<rparr>)"
    using C2_status [of "''  ''" "\<lparr>c_query = [], issues = [], suggestions = [], optimizations = []\<rparr>" 4300] e
    by simp
  show ?thesis using h1 h2 b be by simp
qed


end
